theory Spec2Isabelle
  imports Main "HOL-Library.AList"
begin

text \<open>
  A shallow embedding of the WhatsApp webhook service: the signature verifier
  (\<open>utils/webhook.ts\<close>), the message and status pipeline
  (\<open>services/webhook-handler.ts\<close>, in the revision that keeps contacts in
  \<open>whatsapp_contacts\<close> and messages in the unified table \<open>messages\<close>) and the POST
  route (\<open>index.ts\<close>).  The database is a record of tables, the two HTTP services and
  the faults of the database are parameters, every exception is a value, and every
  outbound call is recorded in a trace.  Logging is not modelled.
\<close>

section \<open>Errors\<close>

text \<open>
  Every exception the TypeScript can raise is a value.  \<open>CryptoError\<close> is a failure
  inside Node's \<open>crypto\<close> module, \<open>RangeError\<close> and \<open>TypeError\<close> are the
  JavaScript errors of the same name, \<open>DbError\<close> is a rejected \<open>pool.query\<close>
  and \<open>HttpError\<close> a rejected \<open>axios.post\<close> (time-out, network error or a status
  outside 2xx).
\<close>

datatype error = CryptoError | RangeError | TypeError | DbError | HttpError

section \<open>Signature verifier (\<open>utils/webhook.ts\<close>)\<close>

text \<open>
  Strings are modelled as their UTF-8 byte sequences, so \<open>Buffer.from(s)\<close> is the
  string itself and \<open>Buffer.length\<close> is \<open>length\<close>.
\<close>

definition Buffer_from :: "string \<Rightarrow> string" where
  "Buffer_from s = s"

text \<open>\<open>crypto.timingSafeEqual\<close> throws a \<open>RangeError\<close> on buffers of different length.\<close>

definition timingSafeEqual :: "string \<Rightarrow> string \<Rightarrow> error + bool" where
  "timingSafeEqual a b = (if length a \<noteq> length b then Inl RangeError else Inr (a = b))"

text \<open>
  The body of the \<open>try\<close> block.  The parameter \<open>hmac\<close> stands for
  \<open>crypto.createHmac('sha256', appSecret).update(payload).digest('hex')\<close>, which belongs to
  the Node runtime and not to the repository; it is applied to the secret and the payload
  and may itself throw.
\<close>

definition verify_try ::
  "(string \<Rightarrow> string \<Rightarrow> error + string) \<Rightarrow> string \<Rightarrow> string \<Rightarrow> string \<Rightarrow> error + bool" where
  "verify_try hmac payload signature appSecret =
     (case hmac appSecret payload of
        Inl e \<Rightarrow> Inl e
      | Inr digest \<Rightarrow>
          (let expected = ''sha256='' @ digest;
               sigBuf = Buffer_from signature;
               expBuf = Buffer_from expected
           in if length sigBuf \<noteq> length expBuf then Inr False
              else timingSafeEqual sigBuf expBuf))"

text \<open>The \<open>catch\<close> clause logs and returns \<open>false\<close>.\<close>

definition verifyWebhookSignature ::
  "(string \<Rightarrow> string \<Rightarrow> error + string) \<Rightarrow> string \<Rightarrow> string \<Rightarrow> string \<Rightarrow> bool" where
  "verifyWebhookSignature hmac payload signature appSecret =
     (case verify_try hmac payload signature appSecret of
        Inl e \<Rightarrow> False
      | Inr b \<Rightarrow> b)"


section \<open>JavaScript values\<close>

text \<open>
  An optional string is \<open>undefined\<close> (\<open>None\<close>) or a string; \<open>undefined\<close> and the
  empty string are falsy.  \<open>or_else a b\<close> is \<open>a || b\<close>.
\<close>

definition truthy :: "string option \<Rightarrow> bool" where
  "truthy s = (case s of None \<Rightarrow> False | Some v \<Rightarrow> v \<noteq> [])"

definition or_else :: "string option \<Rightarrow> string \<Rightarrow> string" where
  "or_else s d = (case s of None \<Rightarrow> d | Some v \<Rightarrow> if v = [] then d else v)"

text \<open>Decimal rendering of numbers, as a template literal prints an integer.\<close>

definition digit_char :: "nat \<Rightarrow> char" where
  "digit_char d = ''0123456789'' ! d"

function show_digits :: "int \<Rightarrow> string" where
  "show_digits n =
     (if n < 10 then [digit_char (nat n)]
      else show_digits (n div 10) @ [digit_char (nat (n mod 10))])"
  by pat_completeness auto
termination
  by (relation "measure nat") auto

definition show_int :: "int \<Rightarrow> string" where
  "show_int i = (if i < 0 then CHR ''-'' # show_digits (- i) else show_digits i)"

text \<open>
  A \<open>Date\<close> is its time value in milliseconds, or \<open>None\<close> for an invalid date
  (time value \<open>NaN\<close>, or beyond the 8.64e15 ms a \<open>Date\<close> can hold).
\<close>

definition new_Date :: "int option \<Rightarrow> int option" where
  "new_Date ms = (case ms of None \<Rightarrow> None
                  | Some t \<Rightarrow> if \<bar>t\<bar> > 8640000000000000 then None else Some t)"

section \<open>JSON documents and the PostgreSQL operators used on them\<close>

datatype json = JNull | JBool bool | JNum int | JStr string | JArr "json list"
  | JObj "(string \<times> json) list"

definition json_quote :: "string \<Rightarrow> string" where
  "json_quote s = ''\"'' @ concat (map (\<lambda>c. if c = CHR ''\"'' \<or> c = CHR 0x5C then [CHR 0x5C, c] else [c]) s) @ ''\"''"

fun intercalate :: "string \<Rightarrow> string list \<Rightarrow> string" where
  "intercalate sep [] = []"
| "intercalate sep [x] = x"
| "intercalate sep (x # y # ys) = x @ sep @ intercalate sep (y # ys)"

fun json_render :: "json \<Rightarrow> string" where
  "json_render JNull = ''null''"
| "json_render (JBool b) = (if b then ''true'' else ''false'')"
| "json_render (JNum n) = show_int n"
| "json_render (JStr s) = json_quote s"
| "json_render (JArr xs) = ''['' @ intercalate '','' (map json_render xs) @ '']''"
| "json_render (JObj kvs) =
     ''{'' @ intercalate '','' (map (\<lambda>kv. json_quote (fst kv) @ '':'' @ json_render (snd kv)) kvs) @ ''}''"

text \<open>
  \<open>doc ->> key\<close>: the member as text.  SQL \<open>NULL\<close> (\<open>None\<close>) when the document is
  not an object, has no such member, or the member is JSON \<open>null\<close>.
\<close>

definition json_as_text :: "json \<Rightarrow> string option" where
  "json_as_text v = (case v of JNull \<Rightarrow> None | JStr s \<Rightarrow> Some s | _ \<Rightarrow> Some (json_render v))"

definition json_get_text :: "json \<Rightarrow> string \<Rightarrow> string option" where
  "json_get_text doc k =
     (case doc of
        JObj kvs \<Rightarrow> (case map_of kvs k of None \<Rightarrow> None | Some v \<Rightarrow> json_as_text v)
      | _ \<Rightarrow> None)"

text \<open>
  \<open>jsonb_set(target, '{key}', v)\<close> with a one-element path: the member is replaced, or
  added when missing; every other member is kept.  PostgreSQL raises an error when the
  target is a scalar or an array.
\<close>

definition jsonb_set :: "json \<Rightarrow> string \<Rightarrow> json \<Rightarrow> error + json" where
  "jsonb_set target k v =
     (case target of JObj kvs \<Rightarrow> Inr (JObj (AList.update k v kvs)) | _ \<Rightarrow> Inl DbError)"

section \<open>Tables (\<open>schema.ts\<close>)\<close>

datatype account_status = active | inactive

datatype message_channel = WIDGET | WHATSAPP

datatype message_type = user | assistant | agent

record account_row =
  acc_id :: string
  acc_chatbot_id :: string
  acc_phone_number :: string
  acc_waba_id :: string
  acc_phone_number_id :: string
  acc_access_token :: string
  acc_status :: account_status
  acc_verify_token :: "string option"

record chatbot_row =
  bot_id :: string
  bot_api_key :: "string option"

record contact_row =
  ct_id :: string
  ct_chatbot_id :: string
  ct_phone_number :: string
  ct_display_name :: "string option"
  ct_metadata :: json
  ct_created_at :: int
  ct_updated_at :: int

record message_row =
  msg_id :: string
  msg_unique_conv_id :: "string option"
  msg_chatbot_id :: string
  msg_channel :: message_channel
  msg_type :: message_type
  msg_content :: string
  msg_citations :: "string list"
  msg_metadata :: "json option"
  msg_created_at :: int

text \<open>
  A table is the list of its rows in insertion order: \<open>INSERT\<close> appends, \<open>UPDATE\<close>
  rewrites rows in place, and a \<open>SELECT\<close> without \<open>ORDER BY\<close> reads in list order.
\<close>

record database =
  whatsapp_accounts :: "account_row list"
  chatbot :: "chatbot_row list"
  whatsapp_contacts :: "contact_row list"
  messages :: "message_row list"

section \<open>Outbound HTTP and the world\<close>

record history_item =
  role :: string
  content :: string

text \<open>
  The body posted to the response service.  \<open>req_query\<close> is the history that the code
  serialises with \<open>JSON.stringify\<close>; the constant members (\<open>platform\<close>, \<open>originUrl\<close>)
  are left out.
\<close>

record response_request =
  req_query :: "history_item list"
  req_mode :: string
  req_uniqueClientId :: string
  req_converslyWebId :: string
  req_phoneNumber :: string
  req_chatbotId :: string

record response_data =
  rd_success :: bool
  rd_response :: "string option"
  rd_citations :: "string list option"

record send_params =
  sp_phoneNumberId :: string
  sp_accessToken :: string
  sp_to :: string
  sp_message :: string

record send_result =
  sr_success :: bool
  sr_messageId :: "string option"
  sr_error :: "string option"

text \<open>
  What \<open>axios.post\<close> to the Graph API did: a 2xx answer with
  \<open>response.data?.messages?.[0]?.id\<close>, an axios error with its message, or another
  exception.
\<close>

datatype graph_reply = GraphOk "string option" | GraphAxiosError string | GraphOtherError

text \<open>
  Each outbound call is recorded with its outcome.  For the response service, \<open>Inl e\<close>
  is a rejected call (time-out, network error, status outside 2xx) or a body that is
  \<open>null\<close>, on which reading \<open>responseData.success\<close> throws.
\<close>

datatype effect =
    ResponseApiPost response_request "error + response_data"
  | GraphApiPost send_params graph_reply

record world =
  db :: database
  clock :: int
  trace :: "effect list"

text \<open>A statement sent to PostgreSQL, with its parameters.\<close>

datatype statement =
    SelectAccounts string
  | SelectContact string string
  | InsertContact contact_row
  | UpdateContact string string string
  | InsertMessage message_row
  | SelectChatbot string
  | SelectHistory string string
  | UpdateMessageStatus string string

text \<open>
  Everything outside the repository is a parameter: whether PostgreSQL rejects a statement
  in the current world (connection loss, a constraint),
  what the two HTTP services answer and after how many milliseconds, the identifiers that
  \<open>createId()\<close> and \<open>gen_random_uuid()\<close> draw, \<open>Date.prototype.toISOString\<close> on a
  valid date, the HMAC of the Node runtime, and PostgreSQL's reading of an array literal
  that starts as one.
\<close>

record env =
  db_raises :: "statement \<Rightarrow> world \<Rightarrow> bool"
  response_api :: "world \<Rightarrow> response_request \<Rightarrow> nat \<times> (error + response_data)"
  graph_api :: "world \<Rightarrow> send_params \<Rightarrow> nat \<times> graph_reply"
  createId :: "world \<Rightarrow> string"
  gen_random_uuid :: "world \<Rightarrow> string"
  iso_format :: "int \<Rightarrow> string"
  hmac_sha256_hex :: "string \<Rightarrow> string \<Rightarrow> error + string"
  array_literal :: "string \<Rightarrow> error + string list"

definition toISOString :: "env \<Rightarrow> int option \<Rightarrow> error + string" where
  "toISOString ev d = (case d of None \<Rightarrow> Inl RangeError | Some t \<Rightarrow> Inr (iso_format ev t))"

section \<open>Webhook payload\<close>

text \<open>
  \<open>m_timestamp\<close> is \<open>parseInt(message.timestamp)\<close>, \<open>None\<close> for \<open>NaN\<close>.  The two
  location members are the numbers as a template literal prints them.
\<close>

record wa_message =
  m_from :: string
  m_id :: string
  m_timestamp :: "int option"
  m_type :: string
  m_text_body :: "string option"
  m_image_caption :: "string option"
  m_video_caption :: "string option"
  m_document_filename :: "string option"
  m_location_latitude :: "string option"
  m_location_longitude :: "string option"
  m_button_text :: "string option"
  m_interactive_type :: "string option"
  m_button_reply_title :: "string option"
  m_list_reply_title :: "string option"

record wa_contact =
  c_wa_id :: string
  c_profile_name :: "string option"

record wa_status =
  st_id :: string
  st_status :: string
  st_recipient_id :: string

record change_value =
  v_phone_number_id :: "string option"
  v_contacts :: "wa_contact list option"
  v_messages :: "wa_message list option"
  v_statuses :: "wa_status list option"

record wa_change =
  ch_field :: string
  ch_value :: "change_value option"

record wa_entry =
  e_id :: string
  e_changes :: "wa_change list"

record wa_payload =
  p_object :: "string option"
  p_entry :: "wa_entry list"

section \<open>Delivery dispatcher (\<open>sendWhatsAppMessage\<close>)\<close>

text \<open>
  One POST to the Graph API.  The whole body is inside \<open>try\<close>, so the function never
  throws: a failure is returned as \<open>{success: false, error}\<close>.
\<close>

definition sendWhatsAppMessage :: "env \<Rightarrow> send_params \<Rightarrow> world \<Rightarrow> world \<times> send_result" where
  "sendWhatsAppMessage ev params w =
     (case graph_api ev w params of
        (elapsed, reply) \<Rightarrow>
          (w\<lparr>clock := clock w + int elapsed, trace := trace w @ [GraphApiPost params reply]\<rparr>,
           case reply of
             GraphOk messageId \<Rightarrow>
               \<lparr>sr_success = True, sr_messageId = messageId, sr_error = None\<rparr>
           | GraphAxiosError msg \<Rightarrow>
               \<lparr>sr_success = False, sr_messageId = None, sr_error = Some msg\<rparr>
           | GraphOtherError \<Rightarrow>
               \<lparr>sr_success = False, sr_messageId = None,
                sr_error = Some ''Unknown error sending message''\<rparr>))"

section \<open>Conversation store\<close>

text \<open>
  \<open>UPDATE t SET ... WHERE P\<close>: every row satisfying \<open>P\<close> is rewritten; when the new
  value of one row cannot be computed the statement fails and changes nothing.
\<close>

fun update_where :: "('a \<Rightarrow> bool) \<Rightarrow> ('a \<Rightarrow> error + 'a) \<Rightarrow> 'a list \<Rightarrow> error + 'a list" where
  "update_where P f [] = Inr []"
| "update_where P f (r # rs) =
     (case (if P r then f r else Inr r) of
        Inl e \<Rightarrow> Inl e
      | Inr r' \<Rightarrow> (case update_where P f rs of Inl e \<Rightarrow> Inl e | Inr rs' \<Rightarrow> Inr (r' # rs')))"

text \<open>
  Get or create the contact (lines 380 to 436 of \<open>processIncomingMessage\<close>): look the
  pair (chatbot, phone number) up with \<open>LIMIT 1\<close>; insert a row under a new identifier
  when there is none, otherwise set the display name and the \<open>last_seen_at\<close> member of
  the metadata of the row with the identifier found.  The result is the contact
  identifier, or the exception that left the block.  The metadata column is
  \<open>NOT NULL\<close>, so the \<open>COALESCE\<close> of the statement has no effect.
\<close>

definition upsertContact ::
  "env \<Rightarrow> account_row \<Rightarrow> string \<Rightarrow> string \<Rightarrow> int option \<Rightarrow> string \<Rightarrow> world
     \<Rightarrow> world \<times> (error + string)" where
  "upsertContact ev account wa_from customerName timestamp messageId w =
     (if db_raises ev (SelectContact (acc_chatbot_id account) wa_from) w then (w, Inl DbError)
      else
        (case take 1 (filter (\<lambda>r. ct_chatbot_id r = acc_chatbot_id account
                                   \<and> ct_phone_number r = wa_from)
                        (whatsapp_contacts (db w))) of
           [] \<Rightarrow>
             (let newContactId = createId ev w in
              case toISOString ev timestamp of
                Inl e \<Rightarrow> (w, Inl e)
              | Inr isoString \<Rightarrow>
                  (let row = \<lparr>ct_id = newContactId,
                              ct_chatbot_id = acc_chatbot_id account,
                              ct_phone_number = wa_from,
                              ct_display_name = Some customerName,
                              ct_metadata = JObj
                                [(''wa_id'', JStr wa_from),
                                 (''profile'', JObj [(''name'', JStr customerName)]),
                                 (''first_seen_at'', JStr isoString),
                                 (''last_seen_at'', JStr isoString),
                                 (''last_inbound_message_id'', JStr messageId),
                                 (''waba_id'', JStr (acc_waba_id account)),
                                 (''phone_number_id'', JStr (acc_phone_number_id account)),
                                 (''display_phone_number'', JStr (acc_phone_number account)),
                                 (''source'', JStr ''organic''),
                                 (''opt_in_status'', JBool True)],
                              ct_created_at = clock w,
                              ct_updated_at = clock w\<rparr>
                   in if db_raises ev (InsertContact row) w then (w, Inl DbError)
                      else (w\<lparr>db := (db w)\<lparr>whatsapp_contacts :=
                                      whatsapp_contacts (db w) @ [row]\<rparr>\<rparr>,
                            Inr (ct_id row))))
         | found # _ \<Rightarrow>
             (let contactId = ct_id found in
              case toISOString ev timestamp of
                Inl e \<Rightarrow> (w, Inl e)
              | Inr isoString \<Rightarrow>
                  if db_raises ev (UpdateContact customerName isoString contactId) w
                  then (w, Inl DbError)
                  else
                    (case update_where (\<lambda>r. ct_id r = contactId)
                            (\<lambda>r. case jsonb_set (ct_metadata r) ''last_seen_at'' (JStr isoString) of
                                    Inl e \<Rightarrow> Inl e
                                  | Inr j \<Rightarrow> Inr (r\<lparr>ct_display_name := Some customerName,
                                                   ct_metadata := j,
                                                   ct_updated_at := clock w\<rparr>))
                            (whatsapp_contacts (db w)) of
                       Inl e \<Rightarrow> (w, Inl e)
                     | Inr rows \<Rightarrow>
                         (w\<lparr>db := (db w)\<lparr>whatsapp_contacts := rows\<rparr>\<rparr>, Inr contactId)))))"

text \<open>
  Store the inbound message (lines 438 to 462).  The citations column takes its default,
  the empty array.
\<close>

definition storeUserMessage ::
  "env \<Rightarrow> account_row \<Rightarrow> wa_message \<Rightarrow> string \<Rightarrow> string \<Rightarrow> string \<Rightarrow> int option \<Rightarrow> world
     \<Rightarrow> world \<times> error option" where
  "storeUserMessage ev account message messageContent uniqueConvId contactId timestamp w =
     (let mtype = m_type message;
          dbMessageType =
            (if mtype = ''text'' \<or> mtype = ''button'' \<or> mtype = ''interactive'' then ''text''
             else if mtype = ''image'' \<or> mtype = ''video'' \<or> mtype = ''document'' then mtype
             else ''text'')
      in case (toISOString ev timestamp, timestamp) of
           (Inr isoString, Some created) \<Rightarrow>
             (let row = \<lparr>msg_id = gen_random_uuid ev w,
                         msg_unique_conv_id = Some uniqueConvId,
                         msg_chatbot_id = acc_chatbot_id account,
                         msg_channel = WHATSAPP,
                         msg_type = user,
                         msg_content = messageContent,
                         msg_citations = [],
                         msg_metadata = Some (JObj
                           [(''phoneNumber'', JStr (m_from message)),
                            (''waMessageId'', JStr (m_id message)),
                            (''messageType'', JStr dbMessageType),
                            (''timestamp'', JStr isoString),
                            (''contactId'', JStr contactId)]),
                         msg_created_at = created\<rparr>
              in if db_raises ev (InsertMessage row) w then (w, Some DbError)
                 else (w\<lparr>db := (db w)\<lparr>messages := messages (db w) @ [row]\<rparr>\<rparr>, None))
         | (Inl e, _) \<Rightarrow> (w, Some e)
         | (_, None) \<Rightarrow> (w, Some RangeError))"

text \<open>\<open>SELECT id, api_key FROM chatbot WHERE id = $1 LIMIT 1\<close> (lines 465 to 468).\<close>

definition selectChatbot :: "env \<Rightarrow> string \<Rightarrow> world \<Rightarrow> error + chatbot_row list" where
  "selectChatbot ev chatbot_id w =
     (if db_raises ev (SelectChatbot chatbot_id) w then Inl DbError
      else Inr (take 1 (filter (\<lambda>b. bot_id b = chatbot_id) (chatbot (db w)))))"

text \<open>
  The conversation history (lines 482 to 493): the rows of the conversation on the
  WhatsApp channel, \<open>ORDER BY created_at ASC LIMIT 10\<close>, each reduced to a role and the
  content.  Rows of equal creation time keep their table order.
\<close>

definition historyRows :: "database \<Rightarrow> string \<Rightarrow> string \<Rightarrow> message_row list" where
  "historyRows d chatbot_id uniqueConvId =
     take 10 (sort_key msg_created_at
       (filter (\<lambda>r. msg_chatbot_id r = chatbot_id \<and> msg_unique_conv_id r = Some uniqueConvId
                     \<and> msg_channel r = WHATSAPP)
          (messages d)))"

definition messagesArray :: "message_row list \<Rightarrow> history_item list" where
  "messagesArray rows =
     map (\<lambda>msg. \<lparr>role = (if msg_type msg = user then ''user'' else ''assistant''),
                  content = msg_content msg\<rparr>) rows"

definition fetchRecentHistory :: "env \<Rightarrow> string \<Rightarrow> string \<Rightarrow> world \<Rightarrow> error + history_item list" where
  "fetchRecentHistory ev chatbot_id uniqueConvId w =
     (if db_raises ev (SelectHistory chatbot_id uniqueConvId) w then Inl DbError
      else Inr (messagesArray (historyRows (db w) chatbot_id uniqueConvId)))"

text \<open>
  Two columns of the table \<open>messages\<close> are used with a type that \<open>schema.ts\<close> does
  not give them.

  The column \<open>citations\<close> is \<open>text[]\<close> (line 52), and the reply is stored with
  \<open>JSON.stringify(responseData.citations || [])\<close> as its parameter.  PostgreSQL reads a
  text for an array column as an array literal: after white space it starts with a brace,
  or with dimensions, that is a bracket followed by a digit or a sign; any other text is
  rejected as malformed.  How a text that starts as a literal is read is the parameter
  \<open>array_literal\<close>.
\<close>

definition JSON_stringify :: "json \<Rightarrow> string" where
  "JSON_stringify v = json_render v"

definition array_isspace :: "char \<Rightarrow> bool" where
  "array_isspace c = (c \<in> set [CHR '' '', CHR 0x09, CHR 0x0A, CHR 0x0B, CHR 0x0C, CHR 0x0D])"

definition text_array_in :: "env \<Rightarrow> string \<Rightarrow> error + string list" where
  "text_array_in ev s =
     (case dropWhile array_isspace s of
        c # d # rest \<Rightarrow>
          if c = CHR ''{'' \<or> (c = CHR ''['' \<and> d \<in> set ''0123456789+-'')
          then array_literal ev s
          else Inl DbError
      | _ \<Rightarrow> Inl DbError)"

text \<open>
  The column \<open>channel_message_metadata\<close> is \<open>json\<close> (line 55), and the status update
  applies \<open>COALESCE\<close> to it and to \<open>'{}'::jsonb\<close>.  \<open>COALESCE\<close> needs one type for
  its arguments; \<open>json\<close> and \<open>jsonb\<close> are converted into each other by an explicit cast
  or on assignment only, so PostgreSQL rejects the statement when it analyses it, whatever
  the rows are.  (The contact update casts its column to \<open>jsonb\<close> first.)
\<close>

datatype pg_type = PgJson | PgJsonb

definition coalesce_type :: "pg_type \<Rightarrow> pg_type \<Rightarrow> error + pg_type" where
  "coalesce_type a b = (if a = b then Inr a else Inl DbError)"

definition channel_message_metadata_type :: pg_type where
  "channel_message_metadata_type = PgJson"

text \<open>
  Store the reply (lines 538 to 558), created at \<open>NOW()\<close>.  The statement is rejected
  when the citations parameter is not an array literal.
\<close>

definition storeAssistantMessage ::
  "env \<Rightarrow> account_row \<Rightarrow> string \<Rightarrow> string \<Rightarrow> string \<Rightarrow> response_data \<Rightarrow> string \<Rightarrow> nat \<Rightarrow> world
     \<Rightarrow> world \<times> error option" where
  "storeAssistantMessage ev account wa_from uniqueConvId contactId responseData finalMessageId
       responseTime w =
     (case text_array_in ev
             (JSON_stringify (JArr (map JStr
                (case rd_citations responseData of None \<Rightarrow> [] | Some cs \<Rightarrow> cs)))) of
        Inl e \<Rightarrow> (w, Some e)
      | Inr citations \<Rightarrow>
          (let row = \<lparr>msg_id = gen_random_uuid ev w,
                      msg_unique_conv_id = Some uniqueConvId,
                      msg_chatbot_id = acc_chatbot_id account,
                      msg_channel = WHATSAPP,
                      msg_type = assistant,
                      msg_content = or_else (rd_response responseData) [],
                      msg_citations = citations,
                      msg_metadata = Some (JObj
                        [(''phoneNumber'', JStr wa_from),
                         (''waMessageId'', JStr finalMessageId),
                         (''messageType'', JStr ''text''),
                         (''responseTimeMs'', JNum (int responseTime)),
                         (''contactId'', JStr contactId)]),
                      msg_created_at = clock w\<rparr>
           in if db_raises ev (InsertMessage row) w then (w, Some DbError)
              else (w\<lparr>db := (db w)\<lparr>messages := messages (db w) @ [row]\<rparr>\<rparr>, None)))"

text \<open>
  The status update of \<open>processMessageStatus\<close> (lines 626 to 636): one \<open>UPDATE\<close> over
  the rows of the WhatsApp channel whose metadata member \<open>waMessageId\<close> is the provider
  message identifier, rejected when its \<open>COALESCE\<close> does not type-check.  A row whose
  metadata is SQL \<open>NULL\<close> never matches.
\<close>

definition updateDeliveryStatus :: "env \<Rightarrow> string \<Rightarrow> string \<Rightarrow> world \<Rightarrow> error + world" where
  "updateDeliveryStatus ev statusValue messageId w =
     (if db_raises ev (UpdateMessageStatus statusValue messageId) w then Inl DbError
      else
        (case coalesce_type channel_message_metadata_type PgJsonb of
           Inl e \<Rightarrow> Inl e
         | Inr t \<Rightarrow>
        (case update_where
                (\<lambda>r. msg_channel r = WHATSAPP
                      \<and> (case msg_metadata r of
                            None \<Rightarrow> False
                          | Some j \<Rightarrow> json_get_text j ''waMessageId'' = Some messageId))
                (\<lambda>r. case jsonb_set (case msg_metadata r of None \<Rightarrow> JObj [] | Some j \<Rightarrow> j)
                             ''status'' (JStr statusValue) of
                        Inl e \<Rightarrow> Inl e
                      | Inr j \<Rightarrow> Inr (r\<lparr>msg_metadata := Some j\<rparr>))
                (messages (db w)) of
           Inl e \<Rightarrow> Inl e
         | Inr rows \<Rightarrow> Inr (w\<lparr>db := (db w)\<lparr>messages := rows\<rparr>\<rparr>))))"

section \<open>Message processing (\<open>processIncomingMessage\<close>)\<close>

text \<open>The projection of a message to text (the \<open>switch\<close> of lines 334 to 366).\<close>

definition messageContent :: "wa_message \<Rightarrow> string" where
  "messageContent message =
     (let mtype = m_type message in
      if mtype = ''text'' then or_else (m_text_body message) []
      else if mtype = ''image'' then or_else (m_image_caption message) ''[Image]''
      else if mtype = ''audio'' then ''[Voice message]''
      else if mtype = ''video'' then or_else (m_video_caption message) ''[Video]''
      else if mtype = ''document''
        then ''[Document: '' @ or_else (m_document_filename message) ''document'' @ '']''
      else if mtype = ''location''
        then ''[Location: '' @ (case m_location_latitude message of None \<Rightarrow> ''undefined'' | Some x \<Rightarrow> x)
               @ '', '' @ (case m_location_longitude message of None \<Rightarrow> ''undefined'' | Some y \<Rightarrow> y)
               @ '']''
      else if mtype = ''button'' then or_else (m_button_text message) []
      else if mtype = ''interactive''
        then (if m_interactive_type message = Some ''button_reply''
                then or_else (m_button_reply_title message) []
              else if m_interactive_type message = Some ''list_reply''
                then or_else (m_list_reply_title message) []
              else [])
      else ''[Unsupported message type: '' @ mtype @ '']'')"

definition customerName :: "wa_contact list option \<Rightarrow> string \<Rightarrow> string" where
  "customerName contacts wa_from =
     (case contacts of
        None \<Rightarrow> ''Unknown''
      | Some cs \<Rightarrow>
          (case find (\<lambda>c. c_wa_id c = wa_from) cs of
             None \<Rightarrow> ''Unknown''
           | Some contact \<Rightarrow> or_else (c_profile_name contact) ''Unknown''))"

definition apology_gateway :: string where
  "apology_gateway = ''Sorry, I encountered an error processing your message. Please try again later.''"

definition apology_exception :: string where
  "apology_exception = ''Sorry, I encountered an error. Please try again later.''"

definition send_to :: "account_row \<Rightarrow> string \<Rightarrow> string \<Rightarrow> send_params" where
  "send_to account wa_from text =
     \<lparr>sp_phoneNumberId = acc_phone_number_id account,
      sp_accessToken = acc_access_token account,
      sp_to = wa_from,
      sp_message = text\<rparr>"

text \<open>
  The call of the response service (lines 495 to 527): one POST; the response time is
  the time the call took.
\<close>

definition callResponseApi ::
  "env \<Rightarrow> response_request \<Rightarrow> world \<Rightarrow> world \<times> nat \<times> (error + response_data)" where
  "callResponseApi ev req w =
     (case response_api ev w req of
        (elapsed, reply) \<Rightarrow>
          (w\<lparr>clock := clock w + int elapsed, trace := trace w @ [ResponseApiPost req reply]\<rparr>,
           elapsed, reply))"

text \<open>
  What follows the answer of the response service (lines 529 to 570).  With
  \<open>success\<close> and a non-empty \<open>response\<close> the reply is sent and then stored under the
  provider message identifier of the send or, when there is none, under
  \<open>ai_<Date.now()>\<close>; otherwise the first apology is sent.
\<close>

definition deliverReply ::
  "env \<Rightarrow> account_row \<Rightarrow> string \<Rightarrow> string \<Rightarrow> string \<Rightarrow> response_data \<Rightarrow> nat \<Rightarrow> world
     \<Rightarrow> world \<times> error option" where
  "deliverReply ev account wa_from uniqueConvId contactId responseData responseTime w =
     (if rd_success responseData \<and> truthy (rd_response responseData) then
        (case sendWhatsAppMessage ev
                (send_to account wa_from (or_else (rd_response responseData) [])) w of
           (w1, sendResult) \<Rightarrow>
             (let finalMessageId =
                    or_else (sr_messageId sendResult) (''ai_'' @ show_int (clock w1))
              in storeAssistantMessage ev account wa_from uniqueConvId contactId responseData
                   finalMessageId responseTime w1))
      else (fst (sendWhatsAppMessage ev (send_to account wa_from apology_gateway) w), None))"

text \<open>
  The first part of the \<open>try\<close> block (lines 379 to 475): the contact, the inbound row
  and the lookup of the chatbot.  It ends in an exception (\<open>Inl (Some e)\<close>), in the
  \<open>return\<close> of line 472 when the chatbot or its API key is missing (\<open>Inl None\<close>), or
  goes on with the contact identifier and the chatbot row.
\<close>

definition persistInbound ::
  "env \<Rightarrow> account_row \<Rightarrow> wa_message \<Rightarrow> wa_contact list option \<Rightarrow> world
     \<Rightarrow> world \<times> (error option + string \<times> chatbot_row)" where
  "persistInbound ev account message contacts w =
     (let wa_from = m_from message;
          timestamp = new_Date (map_option (\<lambda>s. s * 1000) (m_timestamp message));
          uniqueConvId = ''whatsapp_'' @ wa_from @ ''_'' @ acc_chatbot_id account
      in
      case upsertContact ev account wa_from (customerName contacts wa_from) timestamp
             (m_id message) w of
        (w1, Inl e) \<Rightarrow> (w1, Inl (Some e))
      | (w1, Inr contactId) \<Rightarrow>
      (case storeUserMessage ev account message (messageContent message) uniqueConvId
              contactId timestamp w1 of
        (w2, Some e) \<Rightarrow> (w2, Inl (Some e))
      | (w2, None) \<Rightarrow>
      (case selectChatbot ev (acc_chatbot_id account) w2 of
        Inl e \<Rightarrow> (w2, Inl (Some e))
      | Inr [] \<Rightarrow> (w2, Inl None)
      | Inr (chatbotRow # _) \<Rightarrow>
          if \<not> truthy (bot_api_key chatbotRow) then (w2, Inl None)
          else (w2, Inr (contactId, chatbotRow)))))"

text \<open>
  The second part (lines 477 to 570): the history, the call of the response service and
  the delivery of its answer.
\<close>

definition answerWithAI ::
  "env \<Rightarrow> account_row \<Rightarrow> wa_message \<Rightarrow> string \<Rightarrow> chatbot_row \<Rightarrow> world \<Rightarrow> world \<times> error option" where
  "answerWithAI ev account message contactId chatbotRow w =
     (let wa_from = m_from message;
          uniqueConvId = ''whatsapp_'' @ wa_from @ ''_'' @ acc_chatbot_id account;
          uniqueClientId = ''whatsapp_'' @ wa_from @ ''_'' @ acc_chatbot_id account
      in
      case fetchRecentHistory ev (acc_chatbot_id account) uniqueConvId w of
        Inl e \<Rightarrow> (w, Some e)
      | Inr history \<Rightarrow>
      (case callResponseApi ev
              \<lparr>req_query = history,
               req_mode = ''default'',
               req_uniqueClientId = uniqueClientId,
               req_converslyWebId = or_else (bot_api_key chatbotRow) [],
               req_phoneNumber = wa_from,
               req_chatbotId = acc_chatbot_id account\<rparr> w of
        (w1, responseTime, Inl e) \<Rightarrow> (w1, Some e)
      | (w1, responseTime, Inr responseData) \<Rightarrow>
          deliverReply ev account wa_from uniqueConvId contactId responseData
            responseTime w1))"

text \<open>
  The \<open>try\<close> block (lines 379 to 570).  The result is the world at the point where the
  block was left, with the exception that left it, if any.
\<close>

definition processIncomingMessage_try ::
  "env \<Rightarrow> account_row \<Rightarrow> wa_message \<Rightarrow> wa_contact list option \<Rightarrow> world \<Rightarrow> world \<times> error option" where
  "processIncomingMessage_try ev account message contacts w =
     (case persistInbound ev account message contacts w of
        (w1, Inl outcome) \<Rightarrow> (w1, outcome)
      | (w1, Inr (contactId, chatbotRow)) \<Rightarrow>
          answerWithAI ev account message contactId chatbotRow w1)"

text \<open>
  The whole function.  Types other than text, button and interactive, and an empty
  projected text, return before the \<open>try\<close> block.  The \<open>catch\<close> clause tries to send
  the second apology; nothing leaves the function.
\<close>

definition processIncomingMessage ::
  "env \<Rightarrow> account_row \<Rightarrow> wa_contact list option \<Rightarrow> wa_message \<Rightarrow> world \<Rightarrow> world" where
  "processIncomingMessage ev account contacts message w =
     (let mtype = m_type message in
      if mtype \<noteq> ''text'' \<and> mtype \<noteq> ''button'' \<and> mtype \<noteq> ''interactive'' then w
      else if messageContent message = [] then w
      else
        (case processIncomingMessage_try ev account message contacts w of
           (w1, None) \<Rightarrow> w1
         | (w1, Some e) \<Rightarrow>
             fst (sendWhatsAppMessage ev (send_to account (m_from message) apology_exception) w1)))"

section \<open>Status processing (\<open>processMessageStatus\<close>)\<close>

text \<open>An error of the update is logged and swallowed.\<close>

definition processMessageStatus :: "env \<Rightarrow> account_row \<Rightarrow> wa_status \<Rightarrow> world \<Rightarrow> world" where
  "processMessageStatus ev account status w =
     (case updateDeliveryStatus ev (st_status status) (st_id status) w of
        Inl e \<Rightarrow> w
      | Inr w' \<Rightarrow> w')"

section \<open>Webhook orchestrator (\<open>handleWebhookMessage\<close>)\<close>

text \<open>\<open>handleTemplateStatusUpdate\<close> only writes to the log.\<close>

definition handleTemplateStatusUpdate :: "string \<Rightarrow> change_value option \<Rightarrow> world \<Rightarrow> world" where
  "handleTemplateStatusUpdate businessAccountId v w = w"

text \<open>The body of the loop over the accounts found (lines 228 to 252).\<close>

definition processAccount :: "env \<Rightarrow> string \<Rightarrow> wa_change \<Rightarrow> account_row \<Rightarrow> world \<Rightarrow> world" where
  "processAccount ev businessAccountId change account w =
     (if ch_field change = ''messages'' then
        (let contacts = (case ch_value change of None \<Rightarrow> None | Some v \<Rightarrow> v_contacts v);
             w1 = (case (case ch_value change of None \<Rightarrow> None | Some v \<Rightarrow> v_messages v) of
                     None \<Rightarrow> w
                   | Some ms \<Rightarrow> fold (processIncomingMessage ev account contacts) ms w)
         in case (case ch_value change of None \<Rightarrow> None | Some v \<Rightarrow> v_statuses v) of
              None \<Rightarrow> w1
            | Some ss \<Rightarrow> fold (processMessageStatus ev account) ss w1)
      else if ch_field change = ''message_template_status_update''
        then handleTemplateStatusUpdate businessAccountId (ch_value change) w
      else w)"

text \<open>
  The account lookup (lines 215 to 220): every active row with the routing key, in
  table order.
\<close>

definition selectAccounts :: "env \<Rightarrow> string \<Rightarrow> world \<Rightarrow> error + account_row list" where
  "selectAccounts ev phoneNumberId w =
     (if db_raises ev (SelectAccounts phoneNumberId) w then Inl DbError
      else Inr (filter (\<lambda>a. acc_phone_number_id a = phoneNumberId \<and> acc_status a = active)
                  (whatsapp_accounts (db w))))"

text \<open>
  One change (lines 204 to 252).  An exception of the account lookup leaves the
  function; it is the only one that can.
\<close>

definition handleChange :: "env \<Rightarrow> string \<Rightarrow> wa_change \<Rightarrow> world \<Rightarrow> world \<times> error option" where
  "handleChange ev businessAccountId change w =
     (let phoneNumberId = (case ch_value change of None \<Rightarrow> None | Some v \<Rightarrow> v_phone_number_id v)
      in if \<not> truthy phoneNumberId then (w, None)
         else
           (case selectAccounts ev (or_else phoneNumberId []) w of
              Inl e \<Rightarrow> (w, Some e)
            | Inr rows \<Rightarrow>
                if rows = [] then (w, None)
                else (fold (processAccount ev businessAccountId change) rows w, None)))"

fun handleChanges :: "env \<Rightarrow> string \<Rightarrow> wa_change list \<Rightarrow> world \<Rightarrow> world \<times> error option" where
  "handleChanges ev businessAccountId [] w = (w, None)"
| "handleChanges ev businessAccountId (change # changes) w =
     (case handleChange ev businessAccountId change w of
        (w1, Some e) \<Rightarrow> (w1, Some e)
      | (w1, None) \<Rightarrow> handleChanges ev businessAccountId changes w1)"

fun handleEntries :: "env \<Rightarrow> wa_entry list \<Rightarrow> world \<Rightarrow> world \<times> error option" where
  "handleEntries ev [] w = (w, None)"
| "handleEntries ev (entry # entries) w =
     (case handleChanges ev (e_id entry) (e_changes entry) w of
        (w1, Some e) \<Rightarrow> (w1, Some e)
      | (w1, None) \<Rightarrow> handleEntries ev entries w1)"

text \<open>
  Without a pool the function runs \<open>processIncomingMessageSimple\<close> on every message of
  the changes of field \<open>messages\<close> (lines 144 to 197).  It only writes to the log, but the
  log entry holds \<open>timestamp.toISOString()\<close>, which throws on an invalid date; the
  exception ends the loops and is rethrown.
\<close>

definition processIncomingMessageSimple :: "env \<Rightarrow> wa_message \<Rightarrow> error option" where
  "processIncomingMessageSimple ev message =
     (case toISOString ev (new_Date (map_option (\<lambda>s. s * 1000) (m_timestamp message))) of
        Inl e \<Rightarrow> Some e
      | Inr isoString \<Rightarrow> None)"

fun first_error :: "('a \<Rightarrow> error option) \<Rightarrow> 'a list \<Rightarrow> error option" where
  "first_error f [] = None"
| "first_error f (x # xs) = (case f x of Some e \<Rightarrow> Some e | None \<Rightarrow> first_error f xs)"

definition handleWithoutDatabase :: "env \<Rightarrow> wa_payload \<Rightarrow> error option" where
  "handleWithoutDatabase ev payload =
     first_error
       (\<lambda>entry. first_error
          (\<lambda>change.
             if ch_field change = ''messages'' then
               (case (case ch_value change of None \<Rightarrow> None | Some v \<Rightarrow> v_messages v) of
                  None \<Rightarrow> None
                | Some ms \<Rightarrow> first_error (processIncomingMessageSimple ev) ms)
             else None)
          (e_changes entry))
       (p_entry payload)"

text \<open>
  Process configuration: the shared secret, and whether \<open>getDbClient()\<close> returns a pool.
\<close>

record config =
  FACEBOOK_APP_SECRET :: "string option"
  pool :: bool

definition handleWebhookMessage :: "config \<Rightarrow> env \<Rightarrow> wa_payload \<Rightarrow> world \<Rightarrow> world \<times> error option" where
  "handleWebhookMessage cfg ev payload w =
     (if \<not> pool cfg then (w, handleWithoutDatabase ev payload)
      else handleEntries ev (p_entry payload) w)"

section \<open>The POST route (\<open>index.ts\<close>)\<close>

text \<open>
  \<open>rq_signature\<close> is the header \<open>x-hub-signature-256\<close>, \<open>rq_rawBody\<close> the body captured
  by the JSON middleware and \<open>rq_stringified\<close> is \<open>JSON.stringify(payload)\<close>.
\<close>

record http_request =
  rq_signature :: "string option"
  rq_rawBody :: "string option"
  rq_stringified :: string
  rq_payload :: wa_payload

datatype response_body = SuccessMessage string | ErrorMessage string

record http_response =
  rs_status :: nat
  rs_body :: response_body

text \<open>
  The handler answers without waiting for \<open>handleWebhookMessage\<close>, whose rejection is
  logged; the world returned is the one the background processing leaves.
\<close>

definition postWebhook :: "config \<Rightarrow> env \<Rightarrow> http_request \<Rightarrow> world \<Rightarrow> http_response \<times> world" where
  "postWebhook cfg ev req w =
     (let payload = rq_payload req;
          signature = rq_signature req;
          appSecret = FACEBOOK_APP_SECRET cfg
      in if truthy signature \<and> truthy appSecret
            \<and> \<not> verifyWebhookSignature (hmac_sha256_hex ev)
                  (or_else (rq_rawBody req) (rq_stringified req))
                  (or_else signature []) (or_else appSecret [])
         then (\<lparr>rs_status = 401, rs_body = ErrorMessage ''Invalid signature''\<rparr>, w)
         else if p_object payload \<noteq> Some ''whatsapp_business_account''
         then (\<lparr>rs_status = 200, rs_body = SuccessMessage ''Not a WhatsApp webhook event''\<rparr>, w)
         else (\<lparr>rs_status = 200, rs_body = SuccessMessage ''Webhook received''\<rparr>,
               fst (handleWebhookMessage cfg ev payload w)))"

section \<open>Observations on traces and rows\<close>

text \<open>
  The notions below are used to state the properties: the provider message identifier of a
  Graph API answer, the parameters of the Graph API posts and the requests to the response
  service of a trace, the request that \<open>answerWithAI\<close> builds, the inbound row that
  the processing of a message appends, and the possible outcomes of
  \<open>processIncomingMessage\<close> in terms of the calls made and the rows appended.
\<close>

definition provider_id :: "graph_reply \<Rightarrow> string option" where
  "provider_id g = (case g of GraphOk messageId \<Rightarrow> messageId | _ \<Rightarrow> None)"

fun sent :: "effect list \<Rightarrow> send_params list" where
  "sent [] = []"
| "sent (GraphApiPost p r # t) = p # sent t"
| "sent (ResponseApiPost q r # t) = sent t"

fun requests :: "effect list \<Rightarrow> response_request list" where
  "requests [] = []"
| "requests (ResponseApiPost q r # t) = q # requests t"
| "requests (GraphApiPost p g # t) = requests t"

definition the_request :: "account_row \<Rightarrow> wa_message \<Rightarrow> chatbot_row \<Rightarrow> world \<Rightarrow> response_request" where
  "the_request account message chatbotRow w =
     \<lparr>req_query = messagesArray (historyRows (db w) (acc_chatbot_id account)
                     (''whatsapp_'' @ m_from message @ ''_'' @ acc_chatbot_id account)),
      req_mode = ''default'',
      req_uniqueClientId = ''whatsapp_'' @ m_from message @ ''_'' @ acc_chatbot_id account,
      req_converslyWebId = or_else (bot_api_key chatbotRow) [],
      req_phoneNumber = m_from message,
      req_chatbotId = acc_chatbot_id account\<rparr>"

definition user_row :: "account_row \<Rightarrow> wa_message \<Rightarrow> message_row \<Rightarrow> bool" where
  "user_row account message row =
     (msg_type row = user \<and> msg_chatbot_id row = acc_chatbot_id account
      \<and> msg_content row = messageContent message
      \<and> msg_unique_conv_id row
           = Some (''whatsapp_'' @ m_from message @ ''_'' @ acc_chatbot_id account)
      \<and> msg_channel row = WHATSAPP)"

definition message_outcome ::
  "account_row \<Rightarrow> wa_message \<Rightarrow> world \<Rightarrow> world \<Rightarrow> effect list \<Rightarrow> bool" where
  "message_outcome account message w w' new =
     ((new = [] \<or> (\<exists>g. new = [GraphApiPost (send_to account (m_from message) apology_exception) g]))
      \<or> (\<exists>urow req. user_row account message urow
            \<and> req_chatbotId req = acc_chatbot_id account
            \<and> messages (db w') = messages (db w) @ [urow]
            \<and> ((\<exists>e g. new = [ResponseApiPost req (Inl e),
                             GraphApiPost (send_to account (m_from message) apology_exception) g])
              \<or> (\<exists>d g. \<not> (rd_success d \<and> truthy (rd_response d))
                   \<and> new = [ResponseApiPost req (Inr d),
                             GraphApiPost (send_to account (m_from message) apology_gateway) g])
              \<or> (\<exists>d g g'. rd_success d \<and> truthy (rd_response d)
                   \<and> new = [ResponseApiPost req (Inr d),
                             GraphApiPost (send_to account (m_from message)
                                             (or_else (rd_response d) [])) g,
                             GraphApiPost (send_to account (m_from message) apology_exception) g']))))"

text \<open>
  The statements that \<open>handleWebhookMessage\<close> sends before the response service is
  called for a message: the lookups, the contact upsert and the insert of the inbound row.
\<close>

definition precedes_gateway :: "statement \<Rightarrow> bool" where
  "precedes_gateway q =
     (case q of
        InsertMessage row \<Rightarrow> msg_type row = user
      | UpdateMessageStatus statusValue messageId \<Rightarrow> False
      | _ \<Rightarrow> True)"

text \<open>
  The contact rows of a (chatbot, phone number) pair, and a sequence of contact upserts
  for one pair: each call has its display name, its date and its inbound message
  identifier; the results are collected in call order.
\<close>

definition contacts_of :: "string \<Rightarrow> string \<Rightarrow> world \<Rightarrow> contact_row list" where
  "contacts_of chatbot_id phone w =
     filter (\<lambda>r. ct_chatbot_id r = chatbot_id \<and> ct_phone_number r = phone)
       (whatsapp_contacts (db w))"

fun upsertMany ::
  "env \<Rightarrow> account_row \<Rightarrow> string \<Rightarrow> (string \<times> int option \<times> string) list \<Rightarrow> world
     \<Rightarrow> world \<times> (error + string) list" where
  "upsertMany ev account wa_from [] w = (w, [])"
| "upsertMany ev account wa_from ((displayName, timestamp, messageId) # calls) w =
     (case upsertContact ev account wa_from displayName timestamp messageId w of
        (w1, r) \<Rightarrow>
          (case upsertMany ev account wa_from calls w1 of
             (w2, rs) \<Rightarrow> (w2, r # rs)))"

text \<open>
  The worlds in which the metadata of every contact is a JSON object, as the code writes
  it.
\<close>

definition contacts_wf :: "world \<Rightarrow> bool" where
  "contacts_wf w =
     list_all (\<lambda>c. case ct_metadata c of JObj kvs \<Rightarrow> True | _ \<Rightarrow> False)
       (whatsapp_contacts (db w))"

section \<open>Example inputs\<close>

text \<open>
  A store with two active accounts and an inactive one on the routing key \<open>PN1\<close>,
  each active one with its chatbot,
  and an environment in which the database has no fault of its own and the two HTTP
  services give fixed answers.  The digest \<open>ex_hmac\<close> stands in for HMAC-SHA256 in the examples;
  it fails on the empty key.
\<close>

definition ex_hmac :: "string \<Rightarrow> string \<Rightarrow> error + string" where
  "ex_hmac k p = (if k = [] then Inl CryptoError else Inr (rev p @ k))"

definition ex_env :: "(error + response_data) \<Rightarrow> graph_reply \<Rightarrow> env" where
  "ex_env answer delivery =
     \<lparr>db_raises = (\<lambda>q w. False),
      response_api = (\<lambda>w req. (120, answer)),
      graph_api = (\<lambda>w p. (80, delivery)),
      createId = (\<lambda>w. ''ct'' @ show_int (int (length (whatsapp_contacts (db w))))),
      gen_random_uuid = (\<lambda>w. ''msg'' @ show_int (int (length (messages (db w))))),
      iso_format = show_int,
      hmac_sha256_hex = ex_hmac,
      array_literal = (\<lambda>s. if s = ''{}'' then Inr [] else Inl DbError)\<rparr>"

definition ex_account :: "string \<Rightarrow> string \<Rightarrow> account_row" where
  "ex_account aid bid =
     \<lparr>acc_id = aid, acc_chatbot_id = bid, acc_phone_number = ''+1555000'' @ aid,
      acc_waba_id = ''waba'', acc_phone_number_id = ''PN1'', acc_access_token = ''tok-'' @ aid,
      acc_status = active, acc_verify_token = None\<rparr>"

definition ex_db :: database where
  "ex_db =
     \<lparr>whatsapp_accounts = [ex_account ''a1'' ''botA'',
                           (ex_account ''a0'' ''botZ'')\<lparr>acc_status := inactive\<rparr>,
                           ex_account ''a2'' ''botB''],
      chatbot = [\<lparr>bot_id = ''botA'', bot_api_key = Some ''keyA''\<rparr>,
                 \<lparr>bot_id = ''botB'', bot_api_key = Some ''keyB''\<rparr>],
      whatsapp_contacts = [],
      messages = []\<rparr>"

definition ex_world :: world where
  "ex_world = \<lparr>db = ex_db, clock = 1700000005000, trace = []\<rparr>"

definition ex_message :: "string \<Rightarrow> string \<Rightarrow> wa_message" where
  "ex_message mtype body =
     \<lparr>m_from = ''4915112345'', m_id = ''wamid.IN1'', m_timestamp = Some 1700000000,
      m_type = mtype, m_text_body = Some body, m_image_caption = None, m_video_caption = None,
      m_document_filename = None, m_location_latitude = None, m_location_longitude = None,
      m_button_text = None, m_interactive_type = None, m_button_reply_title = None,
      m_list_reply_title = None\<rparr>"

definition ex_answer :: "bool \<Rightarrow> string \<Rightarrow> response_data" where
  "ex_answer ok reply = \<lparr>rd_success = ok, rd_response = Some reply, rd_citations = None\<rparr>"

definition ex_request :: "string \<Rightarrow> string \<Rightarrow> response_request" where
  "ex_request bid key =
     \<lparr>req_query = [\<lparr>role = ''user'', content = ''hi''\<rparr>], req_mode = ''default'',
      req_uniqueClientId = ''whatsapp_4915112345_'' @ bid, req_converslyWebId = key,
      req_phoneNumber = ''4915112345'', req_chatbotId = bid\<rparr>"

definition ex_http :: "string option \<Rightarrow> string \<Rightarrow> http_request" where
  "ex_http signature object =
     \<lparr>rq_signature = signature, rq_rawBody = Some ''{}'', rq_stringified = ''{}'',
      rq_payload = \<lparr>p_object = Some object, p_entry = []\<rparr>\<rparr>"

definition ex_config :: config where
  "ex_config = \<lparr>FACEBOOK_APP_SECRET = Some ''s3cr3t'', pool = True\<rparr>"

definition ex_row :: "string \<Rightarrow> string \<Rightarrow> int \<Rightarrow> message_row" where
  "ex_row rid waMessageId created =
     \<lparr>msg_id = rid, msg_unique_conv_id = Some ''whatsapp_4915112345_botA'',
      msg_chatbot_id = ''botA'', msg_channel = WHATSAPP, msg_type = assistant,
      msg_content = ''Hello!'', msg_citations = [],
      msg_metadata = Some (JObj [(''phoneNumber'', JStr ''4915112345''),
                                 (''waMessageId'', JStr waMessageId),
                                 (''messageType'', JStr ''text''),
                                 (''responseTimeMs'', JNum 120),
                                 (''contactId'', JStr ''ct0'')]),
      msg_created_at = created\<rparr>"

definition ex_world_with :: "message_row list \<Rightarrow> world" where
  "ex_world_with rows = ex_world\<lparr>db := ex_db\<lparr>messages := rows\<rparr>\<rparr>"

definition ex_status :: wa_status where
  "ex_status = \<lparr>st_id = ''wamid.OUT'', st_status = ''delivered'', st_recipient_id = ''4915112345''\<rparr>"

definition ex_calls :: "(string \<times> int option \<times> string) list" where
  "ex_calls = [(''Ann'', Some 1700000000000, ''wamid.IN1''),
               (''Ann B'', Some 1700000060000, ''wamid.IN2''),
               (''Ann'', Some 1700000120000, ''wamid.IN3'')]"

definition ex_change :: wa_change where
  "ex_change =
     \<lparr>ch_field = ''messages'',
      ch_value = Some \<lparr>v_phone_number_id = Some ''PN1'',
                       v_contacts = Some [\<lparr>c_wa_id = ''4915112345'', c_profile_name = Some ''Ann''\<rparr>],
                       v_messages = Some [ex_message ''text'' ''hi''],
                       v_statuses = None\<rparr>\<rparr>"

section \<open>Properties of the signature verifier\<close>

text \<open>
  C2.  Whenever the HMAC of the body under the secret is computed (to the hex digest
  \<open>d\<close>), the verifier accepts the signature \<open>"sha256=" + d\<close>.
\<close>

theorem verify_roundtrip:
  assumes "hmac secret rawBody = Inr d"
  shows "verifyWebhookSignature hmac rawBody (''sha256='' @ d) secret = True"
  using assms
  by (simp add: verifyWebhookSignature_def verify_try_def Buffer_from_def timingSafeEqual_def)

theorem verify_roundtrip_witness:
  "ex_hmac ''s3cr3t'' ''{}'' = Inr ''}{s3cr3t''
   \<and> verifyWebhookSignature ex_hmac ''{}'' (''sha256='' @ ''}{s3cr3t'') ''s3cr3t'' = True"
proof -
  have h: "ex_hmac ''s3cr3t'' ''{}'' = Inr ''}{s3cr3t''"
    by (simp add: ex_hmac_def)
  from verify_roundtrip [of ex_hmac "''s3cr3t''" "''{}''" "''}{s3cr3t''"] h
  show ?thesis by simp
qed

text \<open>
  C3.  The verifier is a total function into \<open>bool\<close>: an error raised inside the
  \<open>try\<close> block gives \<open>False\<close>; and a signature whose length differs from that of the
  expected string is rejected by the length guard, which returns normally
  (\<open>Inr False\<close>) although the comparison itself would have thrown on these buffers.
\<close>

theorem verify_never_raises:
  "(verify_try hmac rawBody sig secret = Inl e \<longrightarrow>
      verifyWebhookSignature hmac rawBody sig secret = False)
   \<and> (hmac secret rawBody = Inr d \<and> length sig \<noteq> length (''sha256='' @ d) \<longrightarrow>
      verify_try hmac rawBody sig secret = Inr False
      \<and> timingSafeEqual (Buffer_from sig) (Buffer_from (''sha256='' @ d)) = Inl RangeError
      \<and> verifyWebhookSignature hmac rawBody sig secret = False)"
  by (simp add: verifyWebhookSignature_def verify_try_def Buffer_from_def timingSafeEqual_def)

theorem verify_never_raises_witness:
  "verify_try ex_hmac ''{}'' ''sha256=00'' [] = Inl CryptoError
   \<and> verifyWebhookSignature ex_hmac ''{}'' ''sha256=00'' [] = False
   \<and> ex_hmac ''s3cr3t'' ''{}'' = Inr ''}{s3cr3t''
   \<and> length ''sha256=00'' \<noteq> length (''sha256='' @ ''}{s3cr3t'')
   \<and> verify_try ex_hmac ''{}'' ''sha256=00'' ''s3cr3t'' = Inr False
   \<and> timingSafeEqual (Buffer_from ''sha256=00'') (Buffer_from (''sha256='' @ ''}{s3cr3t''))
       = Inl RangeError
   \<and> verifyWebhookSignature ex_hmac ''{}'' ''sha256=00'' ''s3cr3t'' = False"
proof -
  have e: "verify_try ex_hmac ''{}'' ''sha256=00'' [] = Inl CryptoError"
    by (simp add: verify_try_def ex_hmac_def)
  have h: "ex_hmac ''s3cr3t'' ''{}'' = Inr ''}{s3cr3t''"
    by (simp add: ex_hmac_def)
  have l: "length ''sha256=00'' \<noteq> length (''sha256='' @ ''}{s3cr3t'')"
    by simp
  from verify_never_raises [of ex_hmac "''{}''" "''sha256=00''" "[]" CryptoError]
       verify_never_raises [of ex_hmac "''{}''" "''sha256=00''" "''s3cr3t''" _ "''}{s3cr3t''"]
       e h l
  show ?thesis by blast
qed

section \<open>Frame and case lemmas for message processing\<close>

lemma sent_append [simp]: "sent (xs @ ys) = sent xs @ sent ys"
  by (induction xs rule: sent.induct) auto

lemma upsertContact_frame:
  assumes "upsertContact ev account f n t m w = (w', r)"
  shows "trace w' = trace w \<and> clock w' = clock w \<and> messages (db w') = messages (db w)
         \<and> chatbot (db w') = chatbot (db w)
         \<and> whatsapp_accounts (db w') = whatsapp_accounts (db w)"
  using assms
  by (auto simp: upsertContact_def Let_def split: if_splits list.splits sum.splits)

lemma storeUserMessage_frame:
  assumes "storeUserMessage ev account message c u cid t w = (w', r)"
  shows "trace w' = trace w \<and> clock w' = clock w
         \<and> chatbot (db w') = chatbot (db w)
         \<and> whatsapp_accounts (db w') = whatsapp_accounts (db w)
         \<and> whatsapp_contacts (db w') = whatsapp_contacts (db w)
         \<and> (r \<noteq> None \<longrightarrow> w' = w)
         \<and> (r = None \<longrightarrow> (\<exists>row. messages (db w') = messages (db w) @ [row] \<and> msg_type row = user
              \<and> msg_chatbot_id row = acc_chatbot_id account \<and> msg_content row = c
              \<and> msg_unique_conv_id row = Some u \<and> msg_channel row = WHATSAPP))"
  using assms
  by (auto simp: storeUserMessage_def Let_def split: if_splits option.splits sum.splits)

lemma persistInbound_frame:
  assumes "persistInbound ev account message contacts w = (w', r)"
  shows "trace w' = trace w \<and> clock w' = clock w
         \<and> chatbot (db w') = chatbot (db w)
         \<and> whatsapp_accounts (db w') = whatsapp_accounts (db w)"
proof -
  let ?ts = "new_Date (map_option (\<lambda>s. s * 1000) (m_timestamp message))"
  obtain w1 r1 where U: "upsertContact ev account (m_from message)
      (customerName contacts (m_from message)) ?ts (m_id message) w = (w1, r1)"
    by fastforce
  note F1 = upsertContact_frame [OF U]
  show ?thesis
  proof (cases r1)
    case (Inl e)
    with U assms F1 show ?thesis by (simp add: persistInbound_def Let_def)
  next
    case (Inr contactId)
    obtain w2 r2 where S: "storeUserMessage ev account message (messageContent message)
        (''whatsapp_'' @ m_from message @ ''_'' @ acc_chatbot_id account) contactId ?ts w1 = (w2, r2)"
      by fastforce
    note F2 = storeUserMessage_frame [OF S]
    from assms U Inr S have "w' = w2"
      by (auto simp: persistInbound_def Let_def split: option.splits sum.splits list.splits if_splits)
    with F1 F2 show ?thesis by simp
  qed
qed

lemma persistInbound_continue:
  assumes "persistInbound ev account message contacts w = (w', Inr (contactId, chatbotRow))"
  shows "(\<exists>row. messages (db w') = messages (db w) @ [row] \<and> msg_type row = user
              \<and> msg_chatbot_id row = acc_chatbot_id account
              \<and> msg_content row = messageContent message
              \<and> msg_unique_conv_id row
                   = Some (''whatsapp_'' @ m_from message @ ''_'' @ acc_chatbot_id account)
              \<and> msg_channel row = WHATSAPP)"
proof -
  let ?ts = "new_Date (map_option (\<lambda>s. s * 1000) (m_timestamp message))"
  obtain w1 r1 where U: "upsertContact ev account (m_from message)
      (customerName contacts (m_from message)) ?ts (m_id message) w = (w1, r1)"
    by fastforce
  note F1 = upsertContact_frame [OF U]
  from assms U obtain cid where R1: "r1 = Inr cid"
    by (cases r1) (auto simp: persistInbound_def Let_def)
  obtain w2 r2 where S: "storeUserMessage ev account message (messageContent message)
        (''whatsapp_'' @ m_from message @ ''_'' @ acc_chatbot_id account) cid ?ts w1 = (w2, r2)"
    by fastforce
  note F2 = storeUserMessage_frame [OF S]
  from assms U R1 S have "w' = w2 \<and> r2 = None"
    by (auto simp: persistInbound_def Let_def split: option.splits sum.splits list.splits if_splits)
  with F1 F2 show ?thesis by auto
qed

lemma sendWhatsAppMessage_frame:
  "\<exists>g n. sendWhatsAppMessage ev p w
            = (w\<lparr>clock := clock w + int n, trace := trace w @ [GraphApiPost p g]\<rparr>,
               \<lparr>sr_success = (case g of GraphOk _ \<Rightarrow> True | _ \<Rightarrow> False),
                sr_messageId = provider_id g,
                sr_error = (case g of GraphOk _ \<Rightarrow> None | GraphAxiosError msg \<Rightarrow> Some msg
                             | GraphOtherError \<Rightarrow> Some ''Unknown error sending message'')\<rparr>)"
  by (cases "graph_api ev w p")
     (auto simp: sendWhatsAppMessage_def provider_id_def split: graph_reply.splits)

lemma catch_send:
  "\<exists>g. trace (fst (sendWhatsAppMessage ev p w)) = trace w @ [GraphApiPost p g]
       \<and> db (fst (sendWhatsAppMessage ev p w)) = db w"
proof -
  obtain g n where "sendWhatsAppMessage ev p w
      = (w\<lparr>clock := clock w + int n, trace := trace w @ [GraphApiPost p g]\<rparr>,
         \<lparr>sr_success = (case g of GraphOk _ \<Rightarrow> True | _ \<Rightarrow> False),
          sr_messageId = provider_id g,
          sr_error = (case g of GraphOk _ \<Rightarrow> None | GraphAxiosError msg \<Rightarrow> Some msg
                       | GraphOtherError \<Rightarrow> Some ''Unknown error sending message'')\<rparr>)"
    using sendWhatsAppMessage_frame by blast
  then show ?thesis by auto
qed

lemma intercalate_Cons: "\<exists>t. intercalate sep (x # xs) = x @ t"
  by (cases xs) auto

lemma citations_rejected:
  "text_array_in ev (JSON_stringify (JArr (map JStr cs))) = Inl DbError"
proof (cases cs)
  case Nil
  then show ?thesis
    by (simp add: text_array_in_def JSON_stringify_def array_isspace_def)
next
  case (Cons c cs')
  obtain t where "intercalate '','' (map json_render (map JStr (c # cs'))) = json_quote c @ t"
    using intercalate_Cons [of "'',''" "json_quote c" "map json_render (map JStr cs')"] by auto
  then have "JSON_stringify (JArr (map JStr cs))
      = CHR ''['' # CHR 0x22 # (concat (map (\<lambda>c. if c = CHR 0x22 \<or> c = CHR 0x5C
                                                 then [CHR 0x5C, c] else [c]) c) @ [CHR 0x22] @ t @ '']'')"
    using Cons by (simp add: JSON_stringify_def json_quote_def)
  then show ?thesis
    by (simp add: text_array_in_def array_isspace_def)
qed

lemma storeAssistantMessage_rejected:
  "storeAssistantMessage ev account f u cid d fid rt w = (w, Some DbError)"
  by (simp add: storeAssistantMessage_def citations_rejected)

lemma deliverReply_cases:
  assumes "deliverReply ev account f u cid d rt w = (w', r)"
  shows "(\<not> (rd_success d \<and> truthy (rd_response d)) \<and> r = None \<and> db w' = db w
          \<and> (\<exists>g. trace w' = trace w @ [GraphApiPost (send_to account f apology_gateway) g]))
       \<or> (rd_success d \<and> truthy (rd_response d) \<and> r = Some DbError \<and> db w' = db w
          \<and> (\<exists>g. trace w' = trace w
                    @ [GraphApiPost (send_to account f (or_else (rd_response d) [])) g]))"
proof (cases "rd_success d \<and> truthy (rd_response d)")
  case False
  from False assms have "w' = fst (sendWhatsAppMessage ev (send_to account f apology_gateway) w)"
    and "r = None"
    by (auto simp: deliverReply_def)
  with catch_send [of ev "send_to account f apology_gateway" w] False show ?thesis by auto
next
  case True
  let ?p = "send_to account f (or_else (rd_response d) [])"
  obtain w1 sr where S: "sendWhatsAppMessage ev ?p w = (w1, sr)" by fastforce
  from True assms S have "w' = w1" "r = Some DbError"
    by (simp_all add: deliverReply_def Let_def storeAssistantMessage_rejected)
  with catch_send [of ev ?p w] S True show ?thesis by auto
qed

lemma answerWithAI_raise:
  assumes "db_raises ev (SelectHistory (acc_chatbot_id account)
              (''whatsapp_'' @ m_from message @ ''_'' @ acc_chatbot_id account)) w"
  shows "answerWithAI ev account message contactId chatbotRow w = (w, Some DbError)"
  using assms by (simp add: answerWithAI_def Let_def fetchRecentHistory_def)

lemma answerWithAI_call:
  assumes "\<not> db_raises ev (SelectHistory (acc_chatbot_id account)
              (''whatsapp_'' @ m_from message @ ''_'' @ acc_chatbot_id account)) w"
      and "response_api ev w (the_request account message chatbotRow w) = (n, reply)"
  shows "answerWithAI ev account message contactId chatbotRow w =
     (case reply of
        Inl e \<Rightarrow> (w\<lparr>clock := clock w + int n,
                     trace := trace w @ [ResponseApiPost (the_request account message chatbotRow w) reply]\<rparr>,
                  Some e)
      | Inr d \<Rightarrow> deliverReply ev account (m_from message)
                  (''whatsapp_'' @ m_from message @ ''_'' @ acc_chatbot_id account) contactId d n
                  (w\<lparr>clock := clock w + int n,
                     trace := trace w @ [ResponseApiPost (the_request account message chatbotRow w) reply]\<rparr>))"
  using assms
  by (simp add: answerWithAI_def Let_def fetchRecentHistory_def callResponseApi_def
        the_request_def split: sum.splits)

lemma answerWithAI_cases:
  assumes A: "answerWithAI ev account message contactId chatbotRow w = (w', r)"
  shows "(trace w' = trace w \<and> db w' = db w \<and> r \<noteq> None)
       \<or> (\<exists>req e. trace w' = trace w @ [ResponseApiPost req (Inl e)] \<and> db w' = db w \<and> r = Some e
             \<and> req_chatbotId req = acc_chatbot_id account)
       \<or> (\<exists>req d. req_chatbotId req = acc_chatbot_id account
             \<and> deliverReply ev account (m_from message)
                  (''whatsapp_'' @ m_from message @ ''_'' @ acc_chatbot_id account) contactId d
                  (fst (response_api ev w req))
                  (w\<lparr>clock := clock w + int (fst (response_api ev w req)),
                     trace := trace w @ [ResponseApiPost req (Inr d)]\<rparr>) = (w', r))"
proof (cases "db_raises ev (SelectHistory (acc_chatbot_id account)
              (''whatsapp_'' @ m_from message @ ''_'' @ acc_chatbot_id account)) w")
  case True
  from answerWithAI_raise [OF True] A show ?thesis by auto
next
  case False
  let ?req = "the_request account message chatbotRow w"
  obtain n reply where R: "response_api ev w ?req = (n, reply)" by fastforce
  have C: "req_chatbotId ?req = acc_chatbot_id account" by (simp add: the_request_def)
  note E = answerWithAI_call [OF False R, of contactId]
  show ?thesis
  proof (cases reply)
    case (Inl e)
    with E A C show ?thesis by auto
  next
    case (Inr d)
    with E A have "deliverReply ev account (m_from message)
                  (''whatsapp_'' @ m_from message @ ''_'' @ acc_chatbot_id account) contactId d
                  (fst (response_api ev w ?req))
                  (w\<lparr>clock := clock w + int (fst (response_api ev w ?req)),
                     trace := trace w @ [ResponseApiPost ?req (Inr d)]\<rparr>) = (w', r)"
      using R by simp
    with C show ?thesis by blast
  qed
qed

lemma processIncomingMessage_outcome:
  fixes ev account contacts message w
  defines "P \<equiv> processIncomingMessage ev account contacts message w"
      and "ex \<equiv> send_to account (m_from message) apology_exception"
  shows "\<exists>new. trace P = trace w @ new
      \<and> chatbot (db P) = chatbot (db w)
      \<and> whatsapp_accounts (db P) = whatsapp_accounts (db w)
      \<and> message_outcome account message w P new"
    (is "\<exists>new. ?T new \<and> ?C \<and> ?A \<and> ?O new")
proof -
  let ?u = "''whatsapp_'' @ m_from message @ ''_'' @ acc_chatbot_id account"
  have fin: "?thesis" if "trace P = trace w @ new" "?C" "?A"
      "((new = [] \<or> (\<exists>g. new = [GraphApiPost ex g]))
        \<or> (\<exists>urow req. user_row account message urow
              \<and> req_chatbotId req = acc_chatbot_id account
              \<and> messages (db P) = messages (db w) @ [urow]
              \<and> ((\<exists>e g. new = [ResponseApiPost req (Inl e), GraphApiPost ex g])
                \<or> (\<exists>d g. \<not> (rd_success d \<and> truthy (rd_response d))
                     \<and> new = [ResponseApiPost req (Inr d),
                               GraphApiPost (send_to account (m_from message) apology_gateway) g])
                \<or> (\<exists>d g g'. rd_success d \<and> truthy (rd_response d)
                     \<and> new = [ResponseApiPost req (Inr d),
                               GraphApiPost (send_to account (m_from message)
                                               (or_else (rd_response d) [])) g,
                               GraphApiPost ex g']))))" for new
    using that unfolding message_outcome_def ex_def by blast
  show ?thesis
  proof (cases "P = w")
    case True
    then show ?thesis by (intro fin [of "[]"]) auto
  next
    case False
    then have run: "P = (case processIncomingMessage_try ev account message contacts w of
                     (w2, None) \<Rightarrow> w2
                   | (w2, Some e) \<Rightarrow> fst (sendWhatsAppMessage ev ex w2))"
      unfolding P_def ex_def by (auto simp: processIncomingMessage_def Let_def)
    obtain w1 r1 where PI: "persistInbound ev account message contacts w = (w1, r1)"
      by fastforce
    note F1 = persistInbound_frame [OF PI]
    show ?thesis
    proof (cases r1)
      case (Inl outcome)
      then have "processIncomingMessage_try ev account message contacts w = (w1, outcome)"
        using PI by (simp add: processIncomingMessage_try_def)
      then have "P = w1 \<or> P = fst (sendWhatsAppMessage ev ex w1)"
        using run by (cases outcome) auto
      then have "(trace P = trace w \<or> (\<exists>g. trace P = trace w @ [GraphApiPost ex g]))
                 \<and> chatbot (db P) = chatbot (db w)
                 \<and> whatsapp_accounts (db P) = whatsapp_accounts (db w)"
        using F1 catch_send [of ev ex w1] by auto
      then show ?thesis by (auto simp: message_outcome_def ex_def)
    next
      case (Inr cb)
      obtain contactId chatbotRow where cb: "cb = (contactId, chatbotRow)" by (cases cb)
      obtain w2 r2 where A: "answerWithAI ev account message contactId chatbotRow w1 = (w2, r2)"
        by fastforce
      have ptry: "processIncomingMessage_try ev account message contacts w = (w2, r2)"
        using PI Inr cb A by (simp add: processIncomingMessage_try_def)
      obtain urow where urow: "messages (db w1) = messages (db w) @ [urow]"
          "user_row account message urow"
        using persistInbound_continue [of ev account message contacts w w1 contactId chatbotRow]
          PI Inr cb unfolding user_row_def by auto
      have wrap: "(r2 = None \<and> P = w2)
             \<or> (r2 \<noteq> None \<and> (\<exists>g. trace P = trace w2 @ [GraphApiPost ex g]) \<and> db P = db w2)"
        using run ptry catch_send [of ev ex w2] by (cases r2) auto
      from answerWithAI_cases [OF A] show ?thesis
      proof (elim disjE exE conjE)
        assume "trace w2 = trace w1" "db w2 = db w1" "r2 \<noteq> None"
        with wrap F1 have "(\<exists>g. trace P = trace w @ [GraphApiPost ex g])
            \<and> chatbot (db P) = chatbot (db w)
            \<and> whatsapp_accounts (db P) = whatsapp_accounts (db w)"
          by auto
        then show ?thesis by (auto simp: message_outcome_def ex_def)
      next
        fix req e
        assume "trace w2 = trace w1 @ [ResponseApiPost req (Inl e)]" "db w2 = db w1"
           "r2 = Some e" "req_chatbotId req = acc_chatbot_id account"
        with wrap F1 urow obtain g where
          "trace P = trace w @ [ResponseApiPost req (Inl e), GraphApiPost ex g]"
          "messages (db P) = messages (db w) @ [urow]" "chatbot (db P) = chatbot (db w)"
          "whatsapp_accounts (db P) = whatsapp_accounts (db w)"
          by auto
        with urow(2) \<open>req_chatbotId req = acc_chatbot_id account\<close> show ?thesis
          by (intro fin [of "[ResponseApiPost req (Inl e), GraphApiPost ex g]"]) blast+
      next
        fix req d
        let ?w1' = "w1\<lparr>clock := clock w1 + int (fst (response_api ev w1 req)),
                     trace := trace w1 @ [ResponseApiPost req (Inr d)]\<rparr>"
        assume rq: "req_chatbotId req = acc_chatbot_id account"
          and D: "deliverReply ev account (m_from message) ?u contactId d
                  (fst (response_api ev w1 req)) ?w1' = (w2, r2)"
        from deliverReply_cases [OF D] show ?thesis
        proof (elim disjE exE conjE)
          fix g
          assume "\<not> (rd_success d \<and> truthy (rd_response d))" "r2 = None" "db w2 = db ?w1'"
            "trace w2 = trace ?w1' @ [GraphApiPost (send_to account (m_from message) apology_gateway) g]"
          with wrap F1 urow have
            "trace P = trace w @ [ResponseApiPost req (Inr d),
                GraphApiPost (send_to account (m_from message) apology_gateway) g]"
            "messages (db P) = messages (db w) @ [urow]" "chatbot (db P) = chatbot (db w)"
            "whatsapp_accounts (db P) = whatsapp_accounts (db w)"
            by auto
          with urow(2) rq \<open>\<not> (rd_success d \<and> truthy (rd_response d))\<close> show ?thesis
            by (intro fin [of "[ResponseApiPost req (Inr d),
                GraphApiPost (send_to account (m_from message) apology_gateway) g]"]) blast+
        next
          fix g
          assume ok: "rd_success d" "truthy (rd_response d)"
            and "trace w2 = trace ?w1'
                  @ [GraphApiPost (send_to account (m_from message) (or_else (rd_response d) [])) g]"
            "r2 = Some DbError" "db w2 = db ?w1'"
          with wrap F1 urow obtain g' where
            "trace P = trace w @ [ResponseApiPost req (Inr d),
                GraphApiPost (send_to account (m_from message) (or_else (rd_response d) [])) g,
                GraphApiPost ex g']"
            "messages (db P) = messages (db w) @ [urow]" "chatbot (db P) = chatbot (db w)"
            "whatsapp_accounts (db P) = whatsapp_accounts (db w)"
            by auto
          with urow(2) rq ok show ?thesis
            by (intro fin [of "[ResponseApiPost req (Inr d),
                GraphApiPost (send_to account (m_from message) (or_else (rd_response d) [])) g,
                GraphApiPost ex g']"]) blast+
        qed
      qed
    qed
  qed
qed

lemma processIncomingMessage_cases:
  assumes T: "trace (processIncomingMessage ev account contacts message w) = trace w @ new"
  shows "message_outcome account message w
           (processIncomingMessage ev account contacts message w) new"
proof -
  from processIncomingMessage_outcome [of ev account contacts message w]
  obtain new' where a: "trace (processIncomingMessage ev account contacts message w) = trace w @ new'"
    and b: "message_outcome account message w
              (processIncomingMessage ev account contacts message w) new'"
    by blast
  from a T have "new' = new" by simp
  with b show ?thesis by simp
qed

lemma processIncomingMessage_frame:
  "chatbot (db (processIncomingMessage ev account contacts message w)) = chatbot (db w)
   \<and> whatsapp_accounts (db (processIncomingMessage ev account contacts message w))
       = whatsapp_accounts (db w)"
  using processIncomingMessage_outcome [of ev account contacts message w] by blast

section \<open>Properties of message processing and of the POST route\<close>

text \<open>
  C4.  A message whose type is not text, button or interactive (audio, for one) leaves
  \<open>processIncomingMessage\<close> before the \<open>try\<close> block: the world is unchanged.  So
  storage is not reached, and no call of the response service is made for it.
\<close>

theorem non_ai_type_skipped:
  assumes "m_type message \<noteq> ''text''" and "m_type message \<noteq> ''button''"
      and "m_type message \<noteq> ''interactive''"
  shows "processIncomingMessage ev account contacts message w = w"
  using assms by (simp add: processIncomingMessage_def)

theorem non_ai_type_skipped_witness:
  "m_type (ex_message ''audio'' []) \<noteq> ''text'' \<and> m_type (ex_message ''audio'' []) \<noteq> ''button''
   \<and> m_type (ex_message ''audio'' []) \<noteq> ''interactive''
   \<and> messageContent (ex_message ''audio'' []) = ''[Voice message]''
   \<and> processIncomingMessage (ex_env (Inr (ex_answer True ''Hello!'')) (GraphOk (Some ''wamid.OUT'')))
        (ex_account ''a1'' ''botA'') None (ex_message ''audio'' []) ex_world = ex_world"
  using non_ai_type_skipped [of "ex_message ''audio'' []"
          "ex_env (Inr (ex_answer True ''Hello!'')) (GraphOk (Some ''wamid.OUT''))"
          "ex_account ''a1'' ''botA''" None ex_world]
  by (simp add: ex_message_def messageContent_def)



text \<open>
  C10.  The code does not do what the claim says.  When the response service answers
  with \<open>success = true\<close> and a non-empty response text, the reply is sent, but the
  insert of the assistant row is rejected for every reply, because the citations reach
  the \<open>text[]\<close> column as JSON text: no assistant row is appended, whatever the send
  returned, and the \<open>catch\<close> clause sends the second apology after the reply.
\<close>

theorem reply_never_stored:
  assumes T: "trace (processIncomingMessage ev account contacts message w) = trace w @ new"
      and M: "ResponseApiPost req (Inr d) \<in> set new"
      and ok: "rd_success d" "truthy (rd_response d)"
  shows "\<exists>g g' urow.
           new = [ResponseApiPost req (Inr d),
                  GraphApiPost (send_to account (m_from message) (or_else (rd_response d) [])) g,
                  GraphApiPost (send_to account (m_from message) apology_exception) g']
         \<and> messages (db (processIncomingMessage ev account contacts message w))
             = messages (db w) @ [urow]
         \<and> user_row account message urow"
  using processIncomingMessage_cases [OF T] M ok
  unfolding message_outcome_def
  by (elim exE conjE disjE) auto

theorem reply_never_stored_witness:
  "trace (processIncomingMessage (ex_env (Inr (ex_answer True ''Hello!'')) (GraphAxiosError ''timeout''))
            (ex_account ''a1'' ''botA'') None (ex_message ''text'' ''hi'') ex_world)
     = trace ex_world @
       [ResponseApiPost (ex_request ''botA'' ''keyA'') (Inr (ex_answer True ''Hello!'')),
        GraphApiPost (send_to (ex_account ''a1'' ''botA'') ''4915112345'' ''Hello!'')
          (GraphAxiosError ''timeout''),
        GraphApiPost (send_to (ex_account ''a1'' ''botA'') ''4915112345'' apology_exception)
          (GraphAxiosError ''timeout'')]
   \<and> rd_success (ex_answer True ''Hello!'') \<and> truthy (rd_response (ex_answer True ''Hello!''))
   \<and> map msg_type (messages (db (processIncomingMessage
          (ex_env (Inr (ex_answer True ''Hello!'')) (GraphAxiosError ''timeout''))
          (ex_account ''a1'' ''botA'') None (ex_message ''text'' ''hi'') ex_world))) = [user]
   \<and> (\<exists>urow.
         messages (db (processIncomingMessage
             (ex_env (Inr (ex_answer True ''Hello!'')) (GraphAxiosError ''timeout''))
             (ex_account ''a1'' ''botA'') None (ex_message ''text'' ''hi'') ex_world))
           = messages (db ex_world) @ [urow]
         \<and> user_row (ex_account ''a1'' ''botA'') (ex_message ''text'' ''hi'') urow)"
proof -
  let ?P = "processIncomingMessage (ex_env (Inr (ex_answer True ''Hello!'')) (GraphAxiosError ''timeout''))
            (ex_account ''a1'' ''botA'') None (ex_message ''text'' ''hi'') ex_world"
  let ?new = "[ResponseApiPost (ex_request ''botA'' ''keyA'') (Inr (ex_answer True ''Hello!'')),
        GraphApiPost (send_to (ex_account ''a1'' ''botA'') ''4915112345'' ''Hello!'')
          (GraphAxiosError ''timeout''),
        GraphApiPost (send_to (ex_account ''a1'' ''botA'') ''4915112345'' apology_exception)
          (GraphAxiosError ''timeout'')]"
  have T: "trace ?P = trace ex_world @ ?new"
    by code_simp
  have M: "ResponseApiPost (ex_request ''botA'' ''keyA'') (Inr (ex_answer True ''Hello!'')) \<in> set ?new"
    by simp
  have ok: "rd_success (ex_answer True ''Hello!'')" "truthy (rd_response (ex_answer True ''Hello!''))"
    by (simp_all add: ex_answer_def truthy_def)
  have R: "map msg_type (messages (db ?P)) = [user]"
    by code_simp
  from reply_never_stored [OF T M ok] T ok R show ?thesis
    by auto
qed

text \<open>
  C9 as stated fails: the signature is checked before the object tag, so a request with
  another object tag and a forged signature is answered 401.
\<close>

theorem post_other_object_counterexample:
  "p_object (rq_payload (ex_http (Some ''sha256=forged'') ''page''))
     \<noteq> Some ''whatsapp_business_account''
   \<and> fst (postWebhook ex_config (ex_env (Inl HttpError) GraphOtherError)
            (ex_http (Some ''sha256=forged'') ''page'') ex_world)
       = \<lparr>rs_status = 401, rs_body = ErrorMessage ''Invalid signature''\<rparr>"
  by code_simp

text \<open>
  C9, amended.  A POST whose object tag is not \<open>whatsapp_business_account\<close> leaves the
  store unchanged; it is answered 401 when a signature header is present, the secret is
  configured and the signature is invalid, and otherwise 200 with the message
  \<open>Not a WhatsApp webhook event\<close>.
\<close>

theorem post_other_object:
  assumes "p_object (rq_payload req) \<noteq> Some ''whatsapp_business_account''"
  shows "snd (postWebhook cfg ev req w) = w
       \<and> fst (postWebhook cfg ev req w)
           = (if truthy (rq_signature req) \<and> truthy (FACEBOOK_APP_SECRET cfg)
                 \<and> \<not> verifyWebhookSignature (hmac_sha256_hex ev)
                       (or_else (rq_rawBody req) (rq_stringified req))
                       (or_else (rq_signature req) []) (or_else (FACEBOOK_APP_SECRET cfg) [])
              then \<lparr>rs_status = 401, rs_body = ErrorMessage ''Invalid signature''\<rparr>
              else \<lparr>rs_status = 200, rs_body = SuccessMessage ''Not a WhatsApp webhook event''\<rparr>)"
  using assms by (simp add: postWebhook_def Let_def)

theorem post_other_object_witness:
  "p_object (rq_payload (ex_http None ''page'')) \<noteq> Some ''whatsapp_business_account''
   \<and> postWebhook ex_config (ex_env (Inl HttpError) GraphOtherError) (ex_http None ''page'') ex_world
       = (\<lparr>rs_status = 200, rs_body = SuccessMessage ''Not a WhatsApp webhook event''\<rparr>, ex_world)"
proof -
  have h: "p_object (rq_payload (ex_http None ''page'')) \<noteq> Some ''whatsapp_business_account''"
    by (simp add: ex_http_def)
  have s: "\<not> truthy (rq_signature (ex_http None ''page''))"
    by (simp add: ex_http_def truthy_def)
  from post_other_object [OF h, of ex_config "ex_env (Inl HttpError) GraphOtherError" ex_world] h s
  show ?thesis by (simp add: prod_eq_iff)
qed

section \<open>Properties of the conversation history\<close>

lemma sorted_historyRows: "sorted (map msg_created_at (historyRows d b c))"
  unfolding historyRows_def
  by (simp flip: take_map)

text \<open>
  C7.  The history has at most ten rows, ascending by creation time and taken from the
  stored messages, and each is reduced to its content and a role, \<open>user\<close> for a row of
  type user and \<open>assistant\<close> otherwise.
\<close>

theorem history_bounded:
  "length (messagesArray (historyRows d b c)) \<le> 10
   \<and> sorted (map msg_created_at (historyRows d b c))
   \<and> set (historyRows d b c) \<subseteq> set (messages d)
   \<and> messagesArray (historyRows d b c)
       = map (\<lambda>r. \<lparr>role = (if msg_type r = user then ''user'' else ''assistant''),
                      content = msg_content r\<rparr>) (historyRows d b c)
   \<and> (fetchRecentHistory ev b c w = Inl DbError
      \<or> fetchRecentHistory ev b c w = Inr (messagesArray (historyRows (db w) b c)))"
proof -
  have 1: "length (messagesArray (historyRows d b c)) \<le> 10"
    by (simp add: historyRows_def messagesArray_def)
  have 2: "set (historyRows d b c) \<subseteq> set (messages d)"
    unfolding historyRows_def using set_take_subset by fastforce
  show ?thesis
    using 1 2 sorted_historyRows
    by (simp add: fetchRecentHistory_def messagesArray_def)
qed

section \<open>Properties of status processing\<close>

text \<open>
  C6.  The code does not do what the claim says.  The status update is rejected for
  every event, because its \<open>COALESCE\<close> mixes the \<open>json\<close> column with a \<open>jsonb\<close>
  value; the error is logged and swallowed, so \<open>processMessageStatus\<close> leaves the world
  as it is: the status is merged into no row, also when a stored row references the
  provider message identifier.
\<close>

theorem status_update_rejected:
  "updateDeliveryStatus ev (st_status status) (st_id status) w = Inl DbError
   \<and> processMessageStatus ev account status w = w"
  by (simp add: processMessageStatus_def updateDeliveryStatus_def coalesce_type_def
        channel_message_metadata_type_def)

theorem status_update_rejected_witness:
  "(case msg_metadata (ex_row ''m1'' ''wamid.OUT'' 1000) of
      None \<Rightarrow> None | Some j \<Rightarrow> json_get_text j ''waMessageId'') = Some (st_id ex_status)
   \<and> msg_channel (ex_row ''m1'' ''wamid.OUT'' 1000) = WHATSAPP
   \<and> messages (db (processMessageStatus (ex_env (Inl HttpError) GraphOtherError)
        (ex_account ''a1'' ''botA'') ex_status (ex_world_with [ex_row ''m1'' ''wamid.OUT'' 1000])))
       = [ex_row ''m1'' ''wamid.OUT'' 1000]
   \<and> (case msg_metadata (ex_row ''m1'' ''wamid.OUT'' 1000) of
        None \<Rightarrow> None | Some j \<Rightarrow> json_get_text j ''status'') = None"
proof -
  have a: "(case msg_metadata (ex_row ''m1'' ''wamid.OUT'' 1000) of
      None \<Rightarrow> None | Some j \<Rightarrow> json_get_text j ''waMessageId'') = Some (st_id ex_status)"
    by code_simp
  have b: "msg_channel (ex_row ''m1'' ''wamid.OUT'' 1000) = WHATSAPP"
    by (simp add: ex_row_def)
  have c: "(case msg_metadata (ex_row ''m1'' ''wamid.OUT'' 1000) of
        None \<Rightarrow> None | Some j \<Rightarrow> json_get_text j ''status'') = None"
    by code_simp
  have d: "messages (db (ex_world_with [ex_row ''m1'' ''wamid.OUT'' 1000]))
             = [ex_row ''m1'' ''wamid.OUT'' 1000]"
    by (simp add: ex_world_with_def)
  from status_update_rejected [of "ex_env (Inl HttpError) GraphOtherError" ex_status
         "ex_world_with [ex_row ''m1'' ''wamid.OUT'' 1000]" "ex_account ''a1'' ''botA''"]
    a b c d
  show ?thesis by simp
qed

section \<open>Properties of the contact upsert\<close>

lemma update_where_map:
  "update_where P f rs = Inr rs' \<Longrightarrow>
     rs' = map (\<lambda>r. if P r then (case f r of Inr r' \<Rightarrow> r' | Inl e \<Rightarrow> r) else r) rs
     \<and> (\<forall>r \<in> set rs. P r \<longrightarrow> (\<exists>r'. f r = Inr r'))"
  by (induction rs arbitrary: rs') (auto split: sum.splits if_splits)

lemma filter_map_invariant:
  "(\<And>r. r \<in> set rs \<Longrightarrow> Q (g r) = Q r) \<Longrightarrow> filter Q (map g rs) = map g (filter Q rs)"
  by (induction rs) auto

lemma upsertContact_insert:
  assumes U: "upsertContact ev account f n ts mid w = (w', Inr cid)"
      and E: "contacts_of (acc_chatbot_id account) f w = []"
  shows "\<exists>r t. contacts_of (acc_chatbot_id account) f w' = [r] \<and> ct_id r = cid \<and> ts = Some t
           \<and> json_get_text (ct_metadata r) ''last_seen_at'' = Some (iso_format ev t)"
  using U E
  by (auto simp: upsertContact_def contacts_of_def Let_def toISOString_def
        json_get_text_def json_as_text_def
      split: if_splits sum.splits option.splits)

lemma upsertContact_update:
  assumes U: "upsertContact ev account f n ts mid w = (w', Inr cid)"
      and E: "contacts_of (acc_chatbot_id account) f w = [r0]"
  shows "ct_id r0 = cid
       \<and> (\<exists>r t. contacts_of (acc_chatbot_id account) f w' = [r] \<and> ct_id r = cid \<and> ts = Some t
           \<and> json_get_text (ct_metadata r) ''last_seen_at'' = Some (iso_format ev t))"
proof -
  let ?Q = "\<lambda>r. ct_chatbot_id r = acc_chatbot_id account \<and> ct_phone_number r = f"
  from E have F: "filter ?Q (whatsapp_contacts (db w)) = [r0]"
    by (simp add: contacts_of_def)
  from U F obtain t where t: "ts = Some t"
    by (cases ts) (auto simp: upsertContact_def Let_def toISOString_def split: if_splits)
  let ?f = "\<lambda>r. case jsonb_set (ct_metadata r) ''last_seen_at'' (JStr (iso_format ev t)) of
                    Inl e \<Rightarrow> Inl e
                  | Inr j \<Rightarrow> Inr (r\<lparr>ct_display_name := Some n, ct_metadata := j,
                                   ct_updated_at := clock w\<rparr>)"
  from U F t obtain rows where
    rows: "update_where (\<lambda>r. ct_id r = ct_id r0) ?f (whatsapp_contacts (db w)) = Inr rows"
    and w': "w' = w\<lparr>db := (db w)\<lparr>whatsapp_contacts := rows\<rparr>\<rparr>" and cid: "cid = ct_id r0"
    by (auto simp: upsertContact_def Let_def toISOString_def split: if_splits sum.splits)
  let ?g = "\<lambda>r. if ct_id r = ct_id r0 then (case ?f r of Inr r' \<Rightarrow> r' | Inl e \<Rightarrow> r) else r"
  from update_where_map [OF rows]
  have m: "rows = map ?g (whatsapp_contacts (db w))"
    and ok: "\<forall>r \<in> set (whatsapp_contacts (db w)). ct_id r = ct_id r0 \<longrightarrow> (\<exists>r'. ?f r = Inr r')"
    by blast+
  have inv: "?Q (?g r) = ?Q r" for r
    by (auto split: sum.splits)
  have "filter ?Q rows = map ?g (filter ?Q (whatsapp_contacts (db w)))"
    unfolding m by (rule filter_map_invariant) (rule inv)
  with F have fr: "filter ?Q rows = [?g r0]" by simp
  from F have "r0 \<in> set (filter ?Q (whatsapp_contacts (db w)))" by simp
  then have "r0 \<in> set (whatsapp_contacts (db w))" by simp
  with ok obtain r where r2: "?f r0 = Inr r" by blast
  with fr have r: "filter ?Q rows = [r]" "?f r0 = Inr r" by simp_all
  from r(2) have "ct_id r = ct_id r0
      \<and> json_get_text (ct_metadata r) ''last_seen_at'' = Some (iso_format ev t)"
    by (auto simp: jsonb_set_def json_get_text_def json_as_text_def update_conv'
        split: sum.splits json.splits)
  with r(1) w' cid t show ?thesis
    by (simp add: contacts_of_def)
qed

lemma upsertMany_keeps:
  assumes "upsertMany ev account f calls w = (w', rs)"
      and "\<forall>r \<in> set rs. \<exists>c. r = Inr c"
      and "contacts_of (acc_chatbot_id account) f w = [r0]"
  shows "rs = replicate (length calls) (Inr (ct_id r0))
       \<and> (\<exists>r. contacts_of (acc_chatbot_id account) f w' = [r] \<and> ct_id r = ct_id r0
           \<and> (calls \<noteq> [] \<longrightarrow> (\<exists>t. fst (snd (last calls)) = Some t
                 \<and> json_get_text (ct_metadata r) ''last_seen_at'' = Some (iso_format ev t))))"
  using assms
proof (induction calls arbitrary: w w' rs r0)
  case Nil
  then show ?case by simp
next
  case (Cons c calls)
  obtain n ts mid where c: "c = (n, ts, mid)" by (cases c)
  obtain w1 r where U: "upsertContact ev account f n ts mid w = (w1, r)" by fastforce
  obtain w2 rs2 where M: "upsertMany ev account f calls w1 = (w2, rs2)" by fastforce
  from Cons.prems(1) c U M have eq: "w' = w2" "rs = r # rs2" by simp_all
  with Cons.prems(2) obtain cid where r: "r = Inr cid" and all2: "\<forall>r \<in> set rs2. \<exists>c. r = Inr c"
    by auto
  from upsertContact_update [OF U [unfolded r] Cons.prems(3)]
  obtain r1 t where r1: "ct_id r0 = cid" "contacts_of (acc_chatbot_id account) f w1 = [r1]"
      "ct_id r1 = cid" "ts = Some t"
      "json_get_text (ct_metadata r1) ''last_seen_at'' = Some (iso_format ev t)"
    by auto
  from Cons.IH [OF M all2 r1(2)] r1 eq r c M
  show ?case
    by (cases calls) auto
qed

text \<open>
  C8.  Start from a store with at most one contact row for the pair (chatbot, phone
  number), as the unique index of \<open>schema.ts\<close> guarantees, and make one or more upsert
  calls for the pair, none of which raises.  Afterwards exactly one row exists for the
  pair, every call has returned the identifier of that row, and its \<open>last_seen_at\<close> is
  the ISO text of the date of the last call.
\<close>

theorem upsert_idempotent:
  assumes run: "upsertMany ev account phone calls w = (w', rs)"
      and nonempty: "calls \<noteq> []"
      and returned: "\<forall>r \<in> set rs. \<exists>c. r = Inr c"
      and unique: "length (contacts_of (acc_chatbot_id account) phone w) \<le> 1"
  shows "\<exists>row contactId t.
           contacts_of (acc_chatbot_id account) phone w' = [row]
         \<and> ct_id row = contactId
         \<and> rs = replicate (length calls) (Inr contactId)
         \<and> fst (snd (last calls)) = Some t
         \<and> json_get_text (ct_metadata row) ''last_seen_at'' = Some (iso_format ev t)"
proof -
  from nonempty obtain n ts mid rest where calls: "calls = (n, ts, mid) # rest"
    by (cases calls) auto
  obtain w1 r where U: "upsertContact ev account phone n ts mid w = (w1, r)" by fastforce
  obtain w2 rs2 where M: "upsertMany ev account phone rest w1 = (w2, rs2)" by fastforce
  from run calls U M have eq: "w' = w2" "rs = r # rs2" by simp_all
  with returned obtain cid where r: "r = Inr cid" and all2: "\<forall>r \<in> set rs2. \<exists>c. r = Inr c"
    by auto
  have "\<exists>r1 t. contacts_of (acc_chatbot_id account) phone w1 = [r1] \<and> ct_id r1 = cid
          \<and> ts = Some t
          \<and> json_get_text (ct_metadata r1) ''last_seen_at'' = Some (iso_format ev t)"
  proof (cases "contacts_of (acc_chatbot_id account) phone w")
    case Nil
    from upsertContact_insert [OF U [unfolded r] Nil] show ?thesis .
  next
    case (Cons r0 more)
    with unique have "contacts_of (acc_chatbot_id account) phone w = [r0]" by simp
    from upsertContact_update [OF U [unfolded r] this] show ?thesis by blast
  qed
  then obtain r1 t where r1: "contacts_of (acc_chatbot_id account) phone w1 = [r1]"
      "ct_id r1 = cid" "ts = Some t"
      "json_get_text (ct_metadata r1) ''last_seen_at'' = Some (iso_format ev t)"
    by blast
  from upsertMany_keeps [OF M all2 r1(1)] r1 eq r calls M
  show ?thesis
    by (cases rest) auto
qed

theorem upsert_idempotent_witness:
  "ex_calls \<noteq> []
   \<and> snd (upsertMany (ex_env (Inl HttpError) GraphOtherError) (ex_account ''a1'' ''botA'')
            ''4915112345'' ex_calls ex_world)
       = [Inr ''ct0'', Inr ''ct0'', Inr ''ct0'']
   \<and> length (contacts_of (acc_chatbot_id (ex_account ''a1'' ''botA'')) ''4915112345'' ex_world) \<le> 1
   \<and> (\<exists>row. contacts_of (acc_chatbot_id (ex_account ''a1'' ''botA'')) ''4915112345''
               (fst (upsertMany (ex_env (Inl HttpError) GraphOtherError)
                      (ex_account ''a1'' ''botA'') ''4915112345'' ex_calls ex_world)) = [row]
         \<and> ct_id row = ''ct0''
         \<and> json_get_text (ct_metadata row) ''last_seen_at'' = Some ''1700000120000'')"
proof -
  let ?ev = "ex_env (Inl HttpError) GraphOtherError"
  let ?run = "upsertMany ?ev (ex_account ''a1'' ''botA'') ''4915112345'' ex_calls ex_world"
  have run: "?run = (fst ?run, snd ?run)" by simp
  have ne: "ex_calls \<noteq> []" by (simp add: ex_calls_def)
  have rs: "snd ?run = [Inr ''ct0'', Inr ''ct0'', Inr ''ct0'']" by code_simp
  then have returned: "\<forall>r \<in> set (snd ?run). \<exists>c. r = Inr c" by simp
  have unique: "length (contacts_of (acc_chatbot_id (ex_account ''a1'' ''botA'')) ''4915112345''
                  ex_world) \<le> 1"
    by code_simp
  have l: "fst (snd (last ex_calls)) = Some 1700000120000" by (simp add: ex_calls_def)
  have i: "iso_format ?ev 1700000120000 = ''1700000120000''"
    by (simp add: ex_env_def show_int_def digit_char_def)
  have len: "replicate (length ex_calls) x = [x, x, x]" for x :: "error + string"
    by (simp add: ex_calls_def)
  from upsert_idempotent [OF run ne returned unique] ne rs unique l i len
  show ?thesis by auto
qed

section \<open>Properties of the fan-out over tenants\<close>

lemma requests_append [simp]: "requests (xs @ ys) = requests xs @ requests ys"
  by (induction xs rule: requests.induct) auto

lemma update_where_obj:
  assumes "list_all (\<lambda>c. case ct_metadata c of JObj kvs \<Rightarrow> True | _ \<Rightarrow> False) rows"
  shows "\<exists>rows'. update_where P
           (\<lambda>r. case jsonb_set (ct_metadata r) k v of
                   Inl e \<Rightarrow> Inl e
                 | Inr j \<Rightarrow> Inr (r\<lparr>ct_display_name := n, ct_metadata := j, ct_updated_at := u\<rparr>))
           rows = Inr rows'
         \<and> list_all (\<lambda>c. case ct_metadata c of JObj kvs \<Rightarrow> True | _ \<Rightarrow> False) rows'"
  using assms
proof (induction rows)
  case Nil
  then show ?case by simp
next
  case (Cons r rows)
  then obtain rows' where IH: "update_where P
           (\<lambda>r. case jsonb_set (ct_metadata r) k v of
                   Inl e \<Rightarrow> Inl e
                 | Inr j \<Rightarrow> Inr (r\<lparr>ct_display_name := n, ct_metadata := j, ct_updated_at := u\<rparr>))
           rows = Inr rows'"
      "list_all (\<lambda>c. case ct_metadata c of JObj kvs \<Rightarrow> True | _ \<Rightarrow> False) rows'"
    by auto
  from Cons.prems obtain kvs where "ct_metadata r = JObj kvs"
    by (cases "ct_metadata r") auto
  with IH Cons.prems show ?case
    by (simp add: jsonb_set_def)
qed

lemma upsertContact_succeeds:
  assumes ok: "\<forall>q w. precedes_gateway q \<longrightarrow> \<not> db_raises ev q w" and wf: "contacts_wf w"
  shows "\<exists>w1 cid. upsertContact ev account f n (Some t) mid w = (w1, Inr cid) \<and> contacts_wf w1"
proof (cases "take 1 (filter (\<lambda>r. ct_chatbot_id r = acc_chatbot_id account
                                   \<and> ct_phone_number r = f) (whatsapp_contacts (db w)))")
  case Nil
  with ok wf show ?thesis
    by (simp add: upsertContact_def Let_def toISOString_def contacts_wf_def precedes_gateway_def)
next
  case (Cons found more)
  from update_where_obj [OF wf [unfolded contacts_wf_def],
      where P = "\<lambda>r. ct_id r = ct_id found" and k = "''last_seen_at''"
        and v = "JStr (iso_format ev t)" and n = "Some n" and u = "clock w"]
  obtain rows' where "update_where (\<lambda>r. ct_id r = ct_id found)
           (\<lambda>r. case jsonb_set (ct_metadata r) ''last_seen_at'' (JStr (iso_format ev t)) of
                   Inl e \<Rightarrow> Inl e
                 | Inr j \<Rightarrow> Inr (r\<lparr>ct_display_name := Some n, ct_metadata := j,
                                  ct_updated_at := clock w\<rparr>))
           (whatsapp_contacts (db w)) = Inr rows'"
      "list_all (\<lambda>c. case ct_metadata c of JObj kvs \<Rightarrow> True | _ \<Rightarrow> False) rows'"
    by blast
  with ok Cons show ?thesis
    by (simp add: upsertContact_def Let_def toISOString_def contacts_wf_def precedes_gateway_def)
qed

lemma persistInbound_succeeds:
  assumes ok: "\<forall>q w. precedes_gateway q \<longrightarrow> \<not> db_raises ev q w" and wf: "contacts_wf w"
      and ts: "m_timestamp message = Some seconds" "\<bar>seconds * 1000\<bar> \<le> 8640000000000000"
      and key: "filter (\<lambda>b. bot_id b = acc_chatbot_id account) (chatbot (db w)) = b # rest"
               "truthy (bot_api_key b)"
  shows "\<exists>w1 cid. persistInbound ev account message contacts w = (w1, Inr (cid, b))
           \<and> contacts_wf w1"
proof -
  let ?ts = "new_Date (map_option (\<lambda>s. s * 1000) (m_timestamp message))"
  have d: "?ts = Some (seconds * 1000)"
    using ts by (simp add: new_Date_def)
  from upsertContact_succeeds [OF ok wf]
  obtain w1 cid where U: "upsertContact ev account (m_from message)
      (customerName contacts (m_from message)) ?ts (m_id message) w = (w1, Inr cid)"
      and wf1: "contacts_wf w1"
    unfolding d by blast
  note F1 = upsertContact_frame [OF U]
  obtain w2 r2 where S: "storeUserMessage ev account message (messageContent message)
        (''whatsapp_'' @ m_from message @ ''_'' @ acc_chatbot_id account) cid ?ts w1 = (w2, r2)"
    by fastforce
  note F2 = storeUserMessage_frame [OF S]
  have r2: "r2 = None"
    using S ok d by (auto simp: storeUserMessage_def Let_def toISOString_def precedes_gateway_def)
  have c: "selectChatbot ev (acc_chatbot_id account) w2 = Inr [b]"
    using ok key F1 F2 by (simp add: selectChatbot_def precedes_gateway_def)
  have "persistInbound ev account message contacts w = (w2, Inr (cid, b))"
    using U S r2 c key(2) by (simp add: persistInbound_def Let_def)
  moreover have "contacts_wf w2"
    using wf1 F2 by (simp add: contacts_wf_def)
  ultimately show ?thesis by blast
qed

lemma answerWithAI_summary:
  assumes ok: "\<forall>q w. precedes_gateway q \<longrightarrow> \<not> db_raises ev q w"
      and A: "answerWithAI ev account message cid b w = (w', r)"
  shows "\<exists>reply sends extra.
           trace w' = trace w @ ResponseApiPost (the_request account message b w) reply # sends
         \<and> requests sends = []
         \<and> db w' = (db w)\<lparr>messages := messages (db w) @ extra\<rparr>
         \<and> list_all (\<lambda>r. msg_type r = assistant) extra"
proof -
  let ?req = "the_request account message b w"
  obtain n reply where R: "response_api ev w ?req = (n, reply)" by fastforce
  from ok have nr: "\<not> db_raises ev (SelectHistory (acc_chatbot_id account)
              (''whatsapp_'' @ m_from message @ ''_'' @ acc_chatbot_id account)) w"
    by (simp add: precedes_gateway_def)
  note E = answerWithAI_call [OF nr R, of cid]
  let ?w1 = "w\<lparr>clock := clock w + int n, trace := trace w @ [ResponseApiPost ?req reply]\<rparr>"
  show ?thesis
  proof (cases reply)
    case (Inl e)
    with E A have "w' = ?w1" by simp
    then have "trace w' = trace w @ ResponseApiPost ?req reply # []
         \<and> requests [] = []
         \<and> db w' = (db w)\<lparr>messages := messages (db w) @ []\<rparr>
         \<and> list_all (\<lambda>r. msg_type r = assistant) []"
      by simp
    then show ?thesis by blast
  next
    case (Inr d)
    with E A have D: "deliverReply ev account (m_from message)
        (''whatsapp_'' @ m_from message @ ''_'' @ acc_chatbot_id account) cid d n ?w1 = (w', r)"
      by simp
    from deliverReply_cases [OF D]
    have "\<exists>g. trace w' = trace ?w1 @ [g] \<and> requests [g] = [] \<and> db w' = db ?w1"
      by (elim disjE conjE exE) auto
    then obtain g where "trace w' = trace ?w1 @ [g]" "requests [g] = []" "db w' = db ?w1"
      by blast
    then have "trace w' = trace ?w1 @ [g] \<and> requests [g] = []
            \<and> db w' = (db w)\<lparr>messages := messages (db w) @ []\<rparr>
            \<and> list_all (\<lambda>r. msg_type r = assistant) []"
      by simp
    then have "\<exists>g extra. trace w' = trace ?w1 @ [g] \<and> requests [g] = []
            \<and> db w' = (db w)\<lparr>messages := messages (db w) @ extra\<rparr>
            \<and> list_all (\<lambda>r. msg_type r = assistant) extra"
      by blast
    then obtain g extra where "trace w' = trace w @ ResponseApiPost ?req reply # [g]"
        "requests [g] = []" "db w' = (db w)\<lparr>messages := messages (db w) @ extra\<rparr>"
        "list_all (\<lambda>r. msg_type r = assistant) extra"
      by auto
    then show ?thesis by blast
  qed
qed

lemma processIncomingMessage_step:
  assumes ok: "\<forall>q w. precedes_gateway q \<longrightarrow> \<not> db_raises ev q w" and wf: "contacts_wf w"
      and ty: "m_type message = ''text''" "m_text_body message = Some body" "body \<noteq> []"
      and ts: "m_timestamp message = Some seconds" "\<bar>seconds * 1000\<bar> \<le> 8640000000000000"
      and key: "filter (\<lambda>b. bot_id b = acc_chatbot_id account) (chatbot (db w)) = b # rest"
               "truthy (bot_api_key b)"
  shows "\<exists>req new urow extra.
           trace (processIncomingMessage ev account contacts message w) = trace w @ new
         \<and> requests new = [req]
         \<and> req_chatbotId req = acc_chatbot_id account
         \<and> req_uniqueClientId req = ''whatsapp_'' @ m_from message @ ''_'' @ acc_chatbot_id account
         \<and> req_converslyWebId req = or_else (bot_api_key b) []
         \<and> messages (db (processIncomingMessage ev account contacts message w))
             = messages (db w) @ urow # extra
         \<and> user_row account message urow
         \<and> list_all (\<lambda>r. msg_type r = assistant) extra
         \<and> chatbot (db (processIncomingMessage ev account contacts message w)) = chatbot (db w)
         \<and> whatsapp_accounts (db (processIncomingMessage ev account contacts message w))
             = whatsapp_accounts (db w)
         \<and> contacts_wf (processIncomingMessage ev account contacts message w)"
proof -
  let ?P = "processIncomingMessage ev account contacts message w"
  let ?ex = "send_to account (m_from message) apology_exception"
  from persistInbound_succeeds [OF ok wf ts key]
  obtain w1 cid where PI: "persistInbound ev account message contacts w = (w1, Inr (cid, b))"
    and wf1: "contacts_wf w1"
    by blast
  note F1 = persistInbound_frame [OF PI]
  obtain urow where urow: "messages (db w1) = messages (db w) @ [urow]"
      "user_row account message urow"
    using persistInbound_continue [OF PI] unfolding user_row_def by auto
  obtain w2 r2 where A: "answerWithAI ev account message cid b w1 = (w2, r2)"
    by fastforce
  from answerWithAI_summary [OF ok A]
  obtain reply sends extra where S:
      "trace w2 = trace w1 @ ResponseApiPost (the_request account message b w1) reply # sends"
      "requests sends = []" "db w2 = (db w1)\<lparr>messages := messages (db w1) @ extra\<rparr>"
      "list_all (\<lambda>r. msg_type r = assistant) extra"
    by blast
  have content: "messageContent message \<noteq> []"
    using ty by (simp add: messageContent_def or_else_def)
  have run: "?P = (case r2 of None \<Rightarrow> w2 | Some e \<Rightarrow> fst (sendWhatsAppMessage ev ?ex w2))"
    using ty content PI A
    by (simp add: processIncomingMessage_def processIncomingMessage_try_def Let_def)
  have "\<exists>more. trace ?P = trace w2 @ more \<and> requests more = [] \<and> db ?P = db w2"
  proof (cases r2)
    case None
    with run have "trace ?P = trace w2 @ [] \<and> requests [] = [] \<and> db ?P = db w2" by simp
    then show ?thesis by blast
  next
    case (Some e)
    with run catch_send [of ev ?ex w2]
    obtain g where "trace ?P = trace w2 @ [GraphApiPost ?ex g]
        \<and> requests [GraphApiPost ?ex g] = [] \<and> db ?P = db w2"
      by auto
    then show ?thesis by blast
  qed
  then obtain more where more: "trace ?P = trace w2 @ more" "requests more = []" "db ?P = db w2"
    by blast
  let ?req = "the_request account message b w1"
  let ?new = "ResponseApiPost ?req reply # sends @ more"
  have 1: "trace ?P = trace w @ ?new"
    using more S F1 by simp
  have 2: "requests ?new = [?req]"
    using more S by simp
  have 3: "req_chatbotId ?req = acc_chatbot_id account"
    "req_uniqueClientId ?req = ''whatsapp_'' @ m_from message @ ''_'' @ acc_chatbot_id account"
    "req_converslyWebId ?req = or_else (bot_api_key b) []"
    by (simp_all add: the_request_def)
  have 4: "messages (db ?P) = messages (db w) @ urow # extra"
    using more S urow by simp
  have 5: "chatbot (db ?P) = chatbot (db w)" "whatsapp_accounts (db ?P) = whatsapp_accounts (db w)"
    using more S F1 by simp_all
  have 6: "contacts_wf ?P"
    using more S wf1 by (simp add: contacts_wf_def)
  from 1 2 3 4 5 6 urow(2) S(4) show ?thesis by blast
qed

lemma fold_accounts:
  assumes ok: "\<forall>q w. precedes_gateway q \<longrightarrow> \<not> db_raises ev q w"
      and ty: "m_type message = ''text''" "m_text_body message = Some body" "body \<noteq> []"
      and ts: "m_timestamp message = Some seconds" "\<bar>seconds * 1000\<bar> \<le> 8640000000000000"
  shows "contacts_wf w \<Longrightarrow>
         list_all (\<lambda>a. case filter (\<lambda>b. bot_id b = acc_chatbot_id a) (chatbot (db w)) of
                          [] \<Rightarrow> False | b # rest \<Rightarrow> truthy (bot_api_key b)) accounts \<Longrightarrow>
         \<exists>new rows.
           trace (fold (\<lambda>a. processIncomingMessage ev a contacts message) accounts w) = trace w @ new
         \<and> list_all2 (\<lambda>a req. req_chatbotId req = acc_chatbot_id a
                          \<and> req_uniqueClientId req
                              = ''whatsapp_'' @ m_from message @ ''_'' @ acc_chatbot_id a)
              accounts (requests new)
         \<and> messages (db (fold (\<lambda>a. processIncomingMessage ev a contacts message) accounts w))
             = messages (db w) @ rows
         \<and> list_all2 (\<lambda>a r. user_row a message r) accounts (filter (\<lambda>r. msg_type r = user) rows)"
proof (induction accounts arbitrary: w)
  case Nil
  have "trace w = trace w @ [] \<and> list_all2 (\<lambda>a req. req_chatbotId req = acc_chatbot_id a
                          \<and> req_uniqueClientId req
                              = ''whatsapp_'' @ m_from message @ ''_'' @ acc_chatbot_id a)
              [] (requests [])
      \<and> messages (db w) = messages (db w) @ []
      \<and> list_all2 (\<lambda>a r. user_row a message r) [] (filter (\<lambda>r. msg_type r = user) [])"
    by simp
  then show ?case by (simp del: append_Nil2)
next
  case (Cons a accounts)
  let ?w1 = "processIncomingMessage ev a contacts message w"
  from Cons.prems(2) obtain b rest where
    key: "filter (\<lambda>b. bot_id b = acc_chatbot_id a) (chatbot (db w)) = b # rest" "truthy (bot_api_key b)"
    by (auto split: list.splits)
  from processIncomingMessage_step [OF ok Cons.prems(1) ty ts key, of contacts]
  obtain req new urow extra where step:
      "trace ?w1 = trace w @ new" "requests new = [req]"
      "req_chatbotId req = acc_chatbot_id a"
      "req_uniqueClientId req = ''whatsapp_'' @ m_from message @ ''_'' @ acc_chatbot_id a"
      "messages (db ?w1) = messages (db w) @ urow # extra"
      "user_row a message urow" "list_all (\<lambda>r. msg_type r = assistant) extra"
      "chatbot (db ?w1) = chatbot (db w)" "contacts_wf ?w1"
    by blast
  have keys1: "list_all (\<lambda>a. case filter (\<lambda>b. bot_id b = acc_chatbot_id a) (chatbot (db ?w1)) of
                          [] \<Rightarrow> False | b # rest \<Rightarrow> truthy (bot_api_key b)) accounts"
    using Cons.prems(2) step(8) by simp
  from Cons.IH [OF step(9) keys1]
  obtain new2 rows2 where rec:
      "trace (fold (\<lambda>a. processIncomingMessage ev a contacts message) accounts ?w1)
         = trace ?w1 @ new2"
      "list_all2 (\<lambda>a req. req_chatbotId req = acc_chatbot_id a
                          \<and> req_uniqueClientId req
                              = ''whatsapp_'' @ m_from message @ ''_'' @ acc_chatbot_id a)
              accounts (requests new2)"
      "messages (db (fold (\<lambda>a. processIncomingMessage ev a contacts message) accounts ?w1))
         = messages (db ?w1) @ rows2"
      "list_all2 (\<lambda>a r. user_row a message r) accounts (filter (\<lambda>r. msg_type r = user) rows2)"
    by blast
  have nu: "filter (\<lambda>r. msg_type r = user) extra = []"
    using step(7) by (induction extra) auto
  have u: "msg_type urow = user"
    using step(6) by (simp add: user_row_def)
  let ?new = "new @ new2" and ?rows = "urow # extra @ rows2"
  have "trace (fold (\<lambda>a. processIncomingMessage ev a contacts message) (a # accounts) w)
          = trace w @ ?new"
    using rec(1) step(1) by simp
  moreover have "list_all2 (\<lambda>a req. req_chatbotId req = acc_chatbot_id a
                          \<and> req_uniqueClientId req
                              = ''whatsapp_'' @ m_from message @ ''_'' @ acc_chatbot_id a)
              (a # accounts) (requests ?new)"
    using rec(2) step(2,3,4) by simp
  moreover have "messages (db (fold (\<lambda>a. processIncomingMessage ev a contacts message)
                                 (a # accounts) w))
          = messages (db w) @ ?rows"
    using rec(3) step(5) by simp
  moreover have "list_all2 (\<lambda>a r. user_row a message r) (a # accounts)
                   (filter (\<lambda>r. msg_type r = user) ?rows)"
    using rec(4) step(6) nu u by simp
  ultimately show ?case by blast
qed

text \<open>
  C1.  Take a change of field \<open>messages\<close> carrying one text message with a non-empty body
  and a valid time, in a world where the database has no fault of its own on the
  statements that precede the call of the response service (the selects, the contact
  upsert, the insert of the inbound row), the metadata of every contact is an object and
  the chatbot of every active account on the routing key has an API key.  Nothing is
  assumed of the statements after that call: the insert of the assistant row is rejected
  for every reply, and the exception it raises is caught inside the processing of that
  account.  Then the change is processed once for each of these accounts, in table
  order: each gets its own call of the response service, posted under its own chatbot and
  client identifier, and its own inbound row, under its own chatbot and conversation
  marker; nothing else posts to the response service or adds an inbound row, and no
  exception leaves the change.
\<close>

theorem every_matching_tenant_processed:
  assumes ok: "\<forall>q w. precedes_gateway q \<longrightarrow> \<not> db_raises ev q w"
      and wf: "contacts_wf w"
      and ch: "ch_field change = ''messages''" "ch_value change = Some v"
              "v_phone_number_id v = Some phoneNumberId" "phoneNumberId \<noteq> []"
              "v_messages v = Some [message]" "v_statuses v = None"
      and ty: "m_type message = ''text''" "m_text_body message = Some body" "body \<noteq> []"
      and ts: "m_timestamp message = Some seconds" "\<bar>seconds * 1000\<bar> \<le> 8640000000000000"
      and tenants: "tenants = filter (\<lambda>a. acc_phone_number_id a = phoneNumberId
                                          \<and> acc_status a = active) (whatsapp_accounts (db w))"
      and keys: "list_all (\<lambda>a. case filter (\<lambda>b. bot_id b = acc_chatbot_id a) (chatbot (db w)) of
                                   [] \<Rightarrow> False | b # rest \<Rightarrow> truthy (bot_api_key b)) tenants"
  shows "snd (handleChange ev businessAccountId change w) = None
       \<and> (\<exists>new rows.
             trace (fst (handleChange ev businessAccountId change w)) = trace w @ new
           \<and> list_all2 (\<lambda>a req. req_chatbotId req = acc_chatbot_id a
                            \<and> req_uniqueClientId req
                                = ''whatsapp_'' @ m_from message @ ''_'' @ acc_chatbot_id a)
                tenants (requests new)
           \<and> messages (db (fst (handleChange ev businessAccountId change w)))
               = messages (db w) @ rows
           \<and> list_all2 (\<lambda>a r. user_row a message r) tenants
                (filter (\<lambda>r. msg_type r = user) rows))"
proof -
  have pa: "processAccount ev businessAccountId change
              = (\<lambda>a. processIncomingMessage ev a (v_contacts v) message)"
    using ch by (intro ext) (simp add: processAccount_def)
  have sel: "selectAccounts ev phoneNumberId w = Inr tenants"
    using ok tenants by (simp add: selectAccounts_def precedes_gateway_def)
  have hc: "handleChange ev businessAccountId change w
              = (fold (\<lambda>a. processIncomingMessage ev a (v_contacts v) message) tenants w, None)"
    using ch sel pa by (cases tenants) (simp_all add: handleChange_def truthy_def or_else_def)
  from fold_accounts [OF ok ty ts wf keys, of "v_contacts v"] hc
  show ?thesis by simp
qed

theorem every_matching_tenant_processed_witness:
  "contacts_wf ex_world
   \<and> filter (\<lambda>a. acc_phone_number_id a = ''PN1'' \<and> acc_status a = active)
        (whatsapp_accounts (db ex_world))
       = [ex_account ''a1'' ''botA'', ex_account ''a2'' ''botB'']
   \<and> snd (handleChange (ex_env (Inr (ex_answer True ''Hello!'')) (GraphOk (Some ''wamid.OUT'')))
             ''waba'' ex_change ex_world) = None
   \<and> (\<exists>new rows.
         trace (fst (handleChange (ex_env (Inr (ex_answer True ''Hello!'')) (GraphOk (Some ''wamid.OUT'')))
                       ''waba'' ex_change ex_world)) = trace ex_world @ new
       \<and> list_all2 (\<lambda>a req. req_chatbotId req = acc_chatbot_id a
                        \<and> req_uniqueClientId req
                            = ''whatsapp_'' @ m_from (ex_message ''text'' ''hi'') @ ''_'' @ acc_chatbot_id a)
            [ex_account ''a1'' ''botA'', ex_account ''a2'' ''botB''] (requests new)
       \<and> messages (db (fst (handleChange
             (ex_env (Inr (ex_answer True ''Hello!'')) (GraphOk (Some ''wamid.OUT'')))
             ''waba'' ex_change ex_world))) = messages (db ex_world) @ rows
       \<and> list_all2 (\<lambda>a r. user_row a (ex_message ''text'' ''hi'') r)
            [ex_account ''a1'' ''botA'', ex_account ''a2'' ''botB'']
            (filter (\<lambda>r. msg_type r = user) rows))
   \<and> map req_chatbotId (requests (trace (fst (handleChange
         (ex_env (Inr (ex_answer True ''Hello!'')) (GraphOk (Some ''wamid.OUT'')))
         ''waba'' ex_change ex_world)))) = [''botA'', ''botB'']
   \<and> map (\<lambda>r. (msg_type r, msg_chatbot_id r, msg_content r))
        (messages (db (fst (handleChange
           (ex_env (Inr (ex_answer True ''Hello!'')) (GraphOk (Some ''wamid.OUT'')))
           ''waba'' ex_change ex_world))))
       = [(user, ''botA'', ''hi''), (user, ''botB'', ''hi'')]"
proof -
  let ?ev = "ex_env (Inr (ex_answer True ''Hello!'')) (GraphOk (Some ''wamid.OUT''))"
  let ?v = "\<lparr>v_phone_number_id = Some ''PN1'',
             v_contacts = Some [\<lparr>c_wa_id = ''4915112345'', c_profile_name = Some ''Ann''\<rparr>],
             v_messages = Some [ex_message ''text'' ''hi''],
             v_statuses = None\<rparr>"
  have ok: "\<forall>q w. precedes_gateway q \<longrightarrow> \<not> db_raises ?ev q w" by (simp add: ex_env_def)
  have wf: "contacts_wf ex_world" by code_simp
  have ch: "ch_field ex_change = ''messages''" "ch_value ex_change = Some ?v"
      "v_phone_number_id ?v = Some ''PN1''" "''PN1'' \<noteq> []"
      "v_messages ?v = Some [ex_message ''text'' ''hi'']" "v_statuses ?v = None"
    by (simp_all add: ex_change_def)
  have ty: "m_type (ex_message ''text'' ''hi'') = ''text''"
      "m_text_body (ex_message ''text'' ''hi'') = Some ''hi''" "''hi'' \<noteq> []"
    by (simp_all add: ex_message_def)
  have ts: "m_timestamp (ex_message ''text'' ''hi'') = Some 1700000000"
      "\<bar>1700000000 * 1000\<bar> \<le> (8640000000000000 :: int)"
    by (simp_all add: ex_message_def)
  have tenants: "[ex_account ''a1'' ''botA'', ex_account ''a2'' ''botB'']
      = filter (\<lambda>a. acc_phone_number_id a = ''PN1'' \<and> acc_status a = active)
          (whatsapp_accounts (db ex_world))"
    by code_simp
  have keys: "list_all (\<lambda>a. case filter (\<lambda>b. bot_id b = acc_chatbot_id a) (chatbot (db ex_world)) of
                               [] \<Rightarrow> False | b # rest \<Rightarrow> truthy (bot_api_key b))
                [ex_account ''a1'' ''botA'', ex_account ''a2'' ''botB'']"
    by code_simp
  have e1: "map req_chatbotId (requests (trace (fst (handleChange ?ev ''waba'' ex_change ex_world))))
      = [''botA'', ''botB'']"
    by code_simp
  have e2: "map (\<lambda>r. (msg_type r, msg_chatbot_id r, msg_content r))
        (messages (db (fst (handleChange ?ev ''waba'' ex_change ex_world))))
       = [(user, ''botA'', ''hi''), (user, ''botB'', ''hi'')]"
    by code_simp
  from every_matching_tenant_processed [OF ok wf ch ty ts tenants keys, of "''waba''"]
    wf tenants e1 e2
  show ?thesis by simp
qed

end
